theory Spec2Isabelle
  imports Main
begin

section \<open>Sprite factory of RigelEngine (src/engine/sprite_factory.cpp)\<close>

text \<open>
  The development embeds the sprite factory: the part resolver
  (\<open>actorIDListForActor\<close>), the static orientation-offset and frame-map tables, the
  draw-order classifier (\<open>adjustedDrawOrder\<close>), the tweak pass (\<open>applyTweaks\<close>),
  the default visible frames (\<open>configureSprite\<close>) and the caching assembler
  (\<open>createOrFindData\<close>, \<open>createSprite\<close>, \<open>actorFrameRect\<close>).

  Conventions.
  \<^item> A C++ \<open>int\<close> is an \<open>int\<close> between \<open>-2147483648\<close> and \<open>2147483647\<close>. The sums
    and the product that the factory computes on \<open>int\<close>s wrap around at 32 bits
    (\<open>wrapInt\<close>), which is what the compiled code does where C++ leaves signed
    overflow undefined; statements about exact results carry the bounds under which
    nothing overflows.
  \<^item> \<open>std::vector\<close> is a list; \<open>operator[]\<close> and iterator arithmetic are not
    checked in the source. Where the source accesses a vector outside its range, the
    behaviour of the C++ code is undefined (the compiled code goes on, reading or
    writing outside the vector); the model does not follow the code any further and
    yields the outcome \<open>OutOfRangeAccess\<close>. Within the range the model and the code
    agree.
  \<^item> An exception of the asset package ends the call: the outcome \<open>LoadFailure\<close>.
\<close>

subsection \<open>Actor identifiers\<close>

text \<open>
  \<open>data::ActorID\<close> is an enumeration declared in a header that is not among the
  sources; it has several hundred enumerators, of which the sprite factory names 139.
  An enumerator is represented by its name, so that the enumerators the factory
  names are pairwise distinct constants and every other enumerator is some other
  value of the type. A \<open>switch\<close> over the identifier is rendered as the chain of
  tests of its case labels, in the order of the source.
\<close>

datatype ActorID = ActorID string

abbreviation Duke_LEFT :: ActorID where
  "Duke_LEFT \<equiv> ActorID ''Duke_LEFT''"

abbreviation Duke_RIGHT :: ActorID where
  "Duke_RIGHT \<equiv> ActorID ''Duke_RIGHT''"

abbreviation Reactor_fire_LEFT :: ActorID where
  "Reactor_fire_LEFT \<equiv> ActorID ''Reactor_fire_LEFT''"

abbreviation Reactor_fire_RIGHT :: ActorID where
  "Reactor_fire_RIGHT \<equiv> ActorID ''Reactor_fire_RIGHT''"

abbreviation Radar_computer_terminal :: ActorID where
  "Radar_computer_terminal \<equiv> ActorID ''Radar_computer_terminal''"

abbreviation Dukes_ship_LEFT :: ActorID where
  "Dukes_ship_LEFT \<equiv> ActorID ''Dukes_ship_LEFT''"

abbreviation Dukes_ship_RIGHT :: ActorID where
  "Dukes_ship_RIGHT \<equiv> ActorID ''Dukes_ship_RIGHT''"

abbreviation Dukes_ship_after_exiting_LEFT :: ActorID where
  "Dukes_ship_after_exiting_LEFT \<equiv> ActorID ''Dukes_ship_after_exiting_LEFT''"

abbreviation Dukes_ship_after_exiting_RIGHT :: ActorID where
  "Dukes_ship_after_exiting_RIGHT \<equiv> ActorID ''Dukes_ship_after_exiting_RIGHT''"

abbreviation Bomb_dropping_spaceship :: ActorID where
  "Bomb_dropping_spaceship \<equiv> ActorID ''Bomb_dropping_spaceship''"

abbreviation Watchbot_container_carrier :: ActorID where
  "Watchbot_container_carrier \<equiv> ActorID ''Watchbot_container_carrier''"

abbreviation Snake :: ActorID where
  "Snake \<equiv> ActorID ''Snake''"

abbreviation Eyeball_thrower_LEFT :: ActorID where
  "Eyeball_thrower_LEFT \<equiv> ActorID ''Eyeball_thrower_LEFT''"

abbreviation Skeleton :: ActorID where
  "Skeleton \<equiv> ActorID ''Skeleton''"

abbreviation Spider :: ActorID where
  "Spider \<equiv> ActorID ''Spider''"

abbreviation Red_box_turkey :: ActorID where
  "Red_box_turkey \<equiv> ActorID ''Red_box_turkey''"

abbreviation Rigelatin_soldier :: ActorID where
  "Rigelatin_soldier \<equiv> ActorID ''Rigelatin_soldier''"

abbreviation Ugly_green_bird :: ActorID where
  "Ugly_green_bird \<equiv> ActorID ''Ugly_green_bird''"

abbreviation Big_green_cat_LEFT :: ActorID where
  "Big_green_cat_LEFT \<equiv> ActorID ''Big_green_cat_LEFT''"

abbreviation Big_green_cat_RIGHT :: ActorID where
  "Big_green_cat_RIGHT \<equiv> ActorID ''Big_green_cat_RIGHT''"

abbreviation Spiked_green_creature_LEFT :: ActorID where
  "Spiked_green_creature_LEFT \<equiv> ActorID ''Spiked_green_creature_LEFT''"

abbreviation Spiked_green_creature_RIGHT :: ActorID where
  "Spiked_green_creature_RIGHT \<equiv> ActorID ''Spiked_green_creature_RIGHT''"

abbreviation Unicycle_bot :: ActorID where
  "Unicycle_bot \<equiv> ActorID ''Unicycle_bot''"

abbreviation Hoverbot :: ActorID where
  "Hoverbot \<equiv> ActorID ''Hoverbot''"

abbreviation Hoverbot_teleport_FX :: ActorID where
  "Hoverbot_teleport_FX \<equiv> ActorID ''Hoverbot_teleport_FX''"

abbreviation Blue_bonus_globe_1 :: ActorID where
  "Blue_bonus_globe_1 \<equiv> ActorID ''Blue_bonus_globe_1''"

abbreviation Blue_bonus_globe_2 :: ActorID where
  "Blue_bonus_globe_2 \<equiv> ActorID ''Blue_bonus_globe_2''"

abbreviation Blue_bonus_globe_3 :: ActorID where
  "Blue_bonus_globe_3 \<equiv> ActorID ''Blue_bonus_globe_3''"

abbreviation Blue_bonus_globe_4 :: ActorID where
  "Blue_bonus_globe_4 \<equiv> ActorID ''Blue_bonus_globe_4''"

abbreviation Bonus_globe_shell :: ActorID where
  "Bonus_globe_shell \<equiv> ActorID ''Bonus_globe_shell''"

abbreviation Teleporter_1 :: ActorID where
  "Teleporter_1 \<equiv> ActorID ''Teleporter_1''"

abbreviation Teleporter_2 :: ActorID where
  "Teleporter_2 \<equiv> ActorID ''Teleporter_2''"

abbreviation Green_slime_blob :: ActorID where
  "Green_slime_blob \<equiv> ActorID ''Green_slime_blob''"

abbreviation Green_slime_blob_flying_on_ceiling :: ActorID where
  "Green_slime_blob_flying_on_ceiling \<equiv> ActorID ''Green_slime_blob_flying_on_ceiling''"

abbreviation Eyeball_thrower_RIGHT :: ActorID where
  "Eyeball_thrower_RIGHT \<equiv> ActorID ''Eyeball_thrower_RIGHT''"

abbreviation Napalm_bomb :: ActorID where
  "Napalm_bomb \<equiv> ActorID ''Napalm_bomb''"

abbreviation Blowing_fan :: ActorID where
  "Blowing_fan \<equiv> ActorID ''Blowing_fan''"

abbreviation Blowing_fan_threads_on_top :: ActorID where
  "Blowing_fan_threads_on_top \<equiv> ActorID ''Blowing_fan_threads_on_top''"

abbreviation Missile_intact :: ActorID where
  "Missile_intact \<equiv> ActorID ''Missile_intact''"

abbreviation Missile_exhaust_flame :: ActorID where
  "Missile_exhaust_flame \<equiv> ActorID ''Missile_exhaust_flame''"

abbreviation Blue_guard_LEFT :: ActorID where
  "Blue_guard_LEFT \<equiv> ActorID ''Blue_guard_LEFT''"

abbreviation Blue_guard_using_a_terminal :: ActorID where
  "Blue_guard_using_a_terminal \<equiv> ActorID ''Blue_guard_using_a_terminal''"

abbreviation Blue_guard_RIGHT :: ActorID where
  "Blue_guard_RIGHT \<equiv> ActorID ''Blue_guard_RIGHT''"

abbreviation Enemy_laser_shot_LEFT :: ActorID where
  "Enemy_laser_shot_LEFT \<equiv> ActorID ''Enemy_laser_shot_LEFT''"

abbreviation Enemy_laser_shot_RIGHT :: ActorID where
  "Enemy_laser_shot_RIGHT \<equiv> ActorID ''Enemy_laser_shot_RIGHT''"

abbreviation Turkey :: ActorID where
  "Turkey \<equiv> ActorID ''Turkey''"

abbreviation Messenger_drone_1 :: ActorID where
  "Messenger_drone_1 \<equiv> ActorID ''Messenger_drone_1''"

abbreviation Messenger_drone_2 :: ActorID where
  "Messenger_drone_2 \<equiv> ActorID ''Messenger_drone_2''"

abbreviation Messenger_drone_3 :: ActorID where
  "Messenger_drone_3 \<equiv> ActorID ''Messenger_drone_3''"

abbreviation Messenger_drone_4 :: ActorID where
  "Messenger_drone_4 \<equiv> ActorID ''Messenger_drone_4''"

abbreviation Messenger_drone_5 :: ActorID where
  "Messenger_drone_5 \<equiv> ActorID ''Messenger_drone_5''"

abbreviation Messenger_drone_body :: ActorID where
  "Messenger_drone_body \<equiv> ActorID ''Messenger_drone_body''"

abbreviation Messenger_drone_part_1 :: ActorID where
  "Messenger_drone_part_1 \<equiv> ActorID ''Messenger_drone_part_1''"

abbreviation Messenger_drone_part_2 :: ActorID where
  "Messenger_drone_part_2 \<equiv> ActorID ''Messenger_drone_part_2''"

abbreviation Messenger_drone_part_3 :: ActorID where
  "Messenger_drone_part_3 \<equiv> ActorID ''Messenger_drone_part_3''"

abbreviation Messenger_drone_exhaust_flame_1 :: ActorID where
  "Messenger_drone_exhaust_flame_1 \<equiv> ActorID ''Messenger_drone_exhaust_flame_1''"

abbreviation Messenger_drone_exhaust_flame_2 :: ActorID where
  "Messenger_drone_exhaust_flame_2 \<equiv> ActorID ''Messenger_drone_exhaust_flame_2''"

abbreviation Messenger_drone_exhaust_flame_3 :: ActorID where
  "Messenger_drone_exhaust_flame_3 \<equiv> ActorID ''Messenger_drone_exhaust_flame_3''"

abbreviation Dukes_ship_exhaust_flames :: ActorID where
  "Dukes_ship_exhaust_flames \<equiv> ActorID ''Dukes_ship_exhaust_flames''"

abbreviation Watchbot_container :: ActorID where
  "Watchbot_container \<equiv> ActorID ''Watchbot_container''"

abbreviation Sentry_robot_generator :: ActorID where
  "Sentry_robot_generator \<equiv> ActorID ''Sentry_robot_generator''"

abbreviation Metal_grabber_claw :: ActorID where
  "Metal_grabber_claw \<equiv> ActorID ''Metal_grabber_claw''"

abbreviation BOSS_Episode_1 :: ActorID where
  "BOSS_Episode_1 \<equiv> ActorID ''BOSS_Episode_1''"

abbreviation BOSS_Episode_3 :: ActorID where
  "BOSS_Episode_3 \<equiv> ActorID ''BOSS_Episode_3''"

abbreviation BOSS_Episode_4 :: ActorID where
  "BOSS_Episode_4 \<equiv> ActorID ''BOSS_Episode_4''"

abbreviation Rocket_elevator :: ActorID where
  "Rocket_elevator \<equiv> ActorID ''Rocket_elevator''"

abbreviation Lava_fountain :: ActorID where
  "Lava_fountain \<equiv> ActorID ''Lava_fountain''"

abbreviation Super_force_field_LEFT :: ActorID where
  "Super_force_field_LEFT \<equiv> ActorID ''Super_force_field_LEFT''"

abbreviation Duke_rocket_up :: ActorID where
  "Duke_rocket_up \<equiv> ActorID ''Duke_rocket_up''"

abbreviation Duke_rocket_down :: ActorID where
  "Duke_rocket_down \<equiv> ActorID ''Duke_rocket_down''"

abbreviation Duke_rocket_left :: ActorID where
  "Duke_rocket_left \<equiv> ActorID ''Duke_rocket_left''"

abbreviation Duke_rocket_right :: ActorID where
  "Duke_rocket_right \<equiv> ActorID ''Duke_rocket_right''"

abbreviation Duke_laser_shot_horizontal :: ActorID where
  "Duke_laser_shot_horizontal \<equiv> ActorID ''Duke_laser_shot_horizontal''"

abbreviation Duke_laser_shot_vertical :: ActorID where
  "Duke_laser_shot_vertical \<equiv> ActorID ''Duke_laser_shot_vertical''"

abbreviation Duke_regular_shot_horizontal :: ActorID where
  "Duke_regular_shot_horizontal \<equiv> ActorID ''Duke_regular_shot_horizontal''"

abbreviation Duke_regular_shot_vertical :: ActorID where
  "Duke_regular_shot_vertical \<equiv> ActorID ''Duke_regular_shot_vertical''"

abbreviation Duke_flame_shot_up :: ActorID where
  "Duke_flame_shot_up \<equiv> ActorID ''Duke_flame_shot_up''"

abbreviation Duke_flame_shot_down :: ActorID where
  "Duke_flame_shot_down \<equiv> ActorID ''Duke_flame_shot_down''"

abbreviation Duke_flame_shot_left :: ActorID where
  "Duke_flame_shot_left \<equiv> ActorID ''Duke_flame_shot_left''"

abbreviation Duke_flame_shot_right :: ActorID where
  "Duke_flame_shot_right \<equiv> ActorID ''Duke_flame_shot_right''"

abbreviation Muzzle_flash_up :: ActorID where
  "Muzzle_flash_up \<equiv> ActorID ''Muzzle_flash_up''"

abbreviation Muzzle_flash_down :: ActorID where
  "Muzzle_flash_down \<equiv> ActorID ''Muzzle_flash_down''"

abbreviation Muzzle_flash_left :: ActorID where
  "Muzzle_flash_left \<equiv> ActorID ''Muzzle_flash_left''"

abbreviation Muzzle_flash_right :: ActorID where
  "Muzzle_flash_right \<equiv> ActorID ''Muzzle_flash_right''"

abbreviation Explosion_FX_1 :: ActorID where
  "Explosion_FX_1 \<equiv> ActorID ''Explosion_FX_1''"

abbreviation Explosion_FX_2 :: ActorID where
  "Explosion_FX_2 \<equiv> ActorID ''Explosion_FX_2''"

abbreviation Shot_impact_FX :: ActorID where
  "Shot_impact_FX \<equiv> ActorID ''Shot_impact_FX''"

abbreviation Smoke_puff_FX :: ActorID where
  "Smoke_puff_FX \<equiv> ActorID ''Smoke_puff_FX''"

abbreviation Hoverbot_debris_1 :: ActorID where
  "Hoverbot_debris_1 \<equiv> ActorID ''Hoverbot_debris_1''"

abbreviation Hoverbot_debris_2 :: ActorID where
  "Hoverbot_debris_2 \<equiv> ActorID ''Hoverbot_debris_2''"

abbreviation Nuclear_waste_can_debris_1 :: ActorID where
  "Nuclear_waste_can_debris_1 \<equiv> ActorID ''Nuclear_waste_can_debris_1''"

abbreviation Nuclear_waste_can_debris_2 :: ActorID where
  "Nuclear_waste_can_debris_2 \<equiv> ActorID ''Nuclear_waste_can_debris_2''"

abbreviation Nuclear_waste_can_debris_3 :: ActorID where
  "Nuclear_waste_can_debris_3 \<equiv> ActorID ''Nuclear_waste_can_debris_3''"

abbreviation Nuclear_waste_can_debris_4 :: ActorID where
  "Nuclear_waste_can_debris_4 \<equiv> ActorID ''Nuclear_waste_can_debris_4''"

abbreviation Flame_thrower_fire_RIGHT :: ActorID where
  "Flame_thrower_fire_RIGHT \<equiv> ActorID ''Flame_thrower_fire_RIGHT''"

abbreviation Flame_thrower_fire_LEFT :: ActorID where
  "Flame_thrower_fire_LEFT \<equiv> ActorID ''Flame_thrower_fire_LEFT''"

abbreviation Nuclear_explosion :: ActorID where
  "Nuclear_explosion \<equiv> ActorID ''Nuclear_explosion''"

abbreviation Watchbot_container_debris_1 :: ActorID where
  "Watchbot_container_debris_1 \<equiv> ActorID ''Watchbot_container_debris_1''"

abbreviation Watchbot_container_debris_2 :: ActorID where
  "Watchbot_container_debris_2 \<equiv> ActorID ''Watchbot_container_debris_2''"

abbreviation Fire_bomb_fire :: ActorID where
  "Fire_bomb_fire \<equiv> ActorID ''Fire_bomb_fire''"

abbreviation Duke_death_particles :: ActorID where
  "Duke_death_particles \<equiv> ActorID ''Duke_death_particles''"

abbreviation Bonus_globe_debris_1 :: ActorID where
  "Bonus_globe_debris_1 \<equiv> ActorID ''Bonus_globe_debris_1''"

abbreviation Bonus_globe_debris_2 :: ActorID where
  "Bonus_globe_debris_2 \<equiv> ActorID ''Bonus_globe_debris_2''"

abbreviation White_circle_flash_FX :: ActorID where
  "White_circle_flash_FX \<equiv> ActorID ''White_circle_flash_FX''"

abbreviation Nuclear_waste_can_green_slime_inside :: ActorID where
  "Nuclear_waste_can_green_slime_inside \<equiv> ActorID ''Nuclear_waste_can_green_slime_inside''"

abbreviation Smoke_cloud_FX :: ActorID where
  "Smoke_cloud_FX \<equiv> ActorID ''Smoke_cloud_FX''"

abbreviation Biological_enemy_debris :: ActorID where
  "Biological_enemy_debris \<equiv> ActorID ''Biological_enemy_debris''"

abbreviation Missile_debris :: ActorID where
  "Missile_debris \<equiv> ActorID ''Missile_debris''"

abbreviation Eyeball_projectile :: ActorID where
  "Eyeball_projectile \<equiv> ActorID ''Eyeball_projectile''"

abbreviation Enemy_laser_muzzle_flash_1 :: ActorID where
  "Enemy_laser_muzzle_flash_1 \<equiv> ActorID ''Enemy_laser_muzzle_flash_1''"

abbreviation Enemy_laser_muzzle_flash_2 :: ActorID where
  "Enemy_laser_muzzle_flash_2 \<equiv> ActorID ''Enemy_laser_muzzle_flash_2''"

abbreviation Metal_grabber_claw_debris_1 :: ActorID where
  "Metal_grabber_claw_debris_1 \<equiv> ActorID ''Metal_grabber_claw_debris_1''"

abbreviation Metal_grabber_claw_debris_2 :: ActorID where
  "Metal_grabber_claw_debris_2 \<equiv> ActorID ''Metal_grabber_claw_debris_2''"

abbreviation Yellow_fireball_FX :: ActorID where
  "Yellow_fireball_FX \<equiv> ActorID ''Yellow_fireball_FX''"

abbreviation Green_fireball_FX :: ActorID where
  "Green_fireball_FX \<equiv> ActorID ''Green_fireball_FX''"

abbreviation Blue_fireball_FX :: ActorID where
  "Blue_fireball_FX \<equiv> ActorID ''Blue_fireball_FX''"

abbreviation Coke_can_debris_1 :: ActorID where
  "Coke_can_debris_1 \<equiv> ActorID ''Coke_can_debris_1''"

abbreviation Coke_can_debris_2 :: ActorID where
  "Coke_can_debris_2 \<equiv> ActorID ''Coke_can_debris_2''"

abbreviation Spiked_green_creature_eye_FX_LEFT :: ActorID where
  "Spiked_green_creature_eye_FX_LEFT \<equiv> ActorID ''Spiked_green_creature_eye_FX_LEFT''"

abbreviation Spiked_green_creature_eye_FX_RIGHT :: ActorID where
  "Spiked_green_creature_eye_FX_RIGHT \<equiv> ActorID ''Spiked_green_creature_eye_FX_RIGHT''"

abbreviation Spiked_green_creature_stone_debris_1_LEFT :: ActorID where
  "Spiked_green_creature_stone_debris_1_LEFT \<equiv> ActorID ''Spiked_green_creature_stone_debris_1_LEFT''"

abbreviation Spiked_green_creature_stone_debris_2_LEFT :: ActorID where
  "Spiked_green_creature_stone_debris_2_LEFT \<equiv> ActorID ''Spiked_green_creature_stone_debris_2_LEFT''"

abbreviation Spiked_green_creature_stone_debris_3_LEFT :: ActorID where
  "Spiked_green_creature_stone_debris_3_LEFT \<equiv> ActorID ''Spiked_green_creature_stone_debris_3_LEFT''"

abbreviation Spiked_green_creature_stone_debris_4_LEFT :: ActorID where
  "Spiked_green_creature_stone_debris_4_LEFT \<equiv> ActorID ''Spiked_green_creature_stone_debris_4_LEFT''"

abbreviation Spiked_green_creature_stone_debris_1_RIGHT :: ActorID where
  "Spiked_green_creature_stone_debris_1_RIGHT \<equiv> ActorID ''Spiked_green_creature_stone_debris_1_RIGHT''"

abbreviation Spiked_green_creature_stone_debris_2_RIGHT :: ActorID where
  "Spiked_green_creature_stone_debris_2_RIGHT \<equiv> ActorID ''Spiked_green_creature_stone_debris_2_RIGHT''"

abbreviation Spiked_green_creature_stone_debris_3_RIGHT :: ActorID where
  "Spiked_green_creature_stone_debris_3_RIGHT \<equiv> ActorID ''Spiked_green_creature_stone_debris_3_RIGHT''"

abbreviation Spiked_green_creature_stone_debris_4_RIGHT :: ActorID where
  "Spiked_green_creature_stone_debris_4_RIGHT \<equiv> ActorID ''Spiked_green_creature_stone_debris_4_RIGHT''"

abbreviation Spider_shaken_off :: ActorID where
  "Spider_shaken_off \<equiv> ActorID ''Spider_shaken_off''"

abbreviation Windblown_spider_generator :: ActorID where
  "Windblown_spider_generator \<equiv> ActorID ''Windblown_spider_generator''"

abbreviation Spider_debris_2 :: ActorID where
  "Spider_debris_2 \<equiv> ActorID ''Spider_debris_2''"

abbreviation Spider_blowing_in_wind :: ActorID where
  "Spider_blowing_in_wind \<equiv> ActorID ''Spider_blowing_in_wind''"

abbreviation Prisoner_hand_debris :: ActorID where
  "Prisoner_hand_debris \<equiv> ActorID ''Prisoner_hand_debris''"

abbreviation Rigelatin_soldier_projectile :: ActorID where
  "Rigelatin_soldier_projectile \<equiv> ActorID ''Rigelatin_soldier_projectile''"

abbreviation Score_number_FX_100 :: ActorID where
  "Score_number_FX_100 \<equiv> ActorID ''Score_number_FX_100''"

abbreviation Score_number_FX_500 :: ActorID where
  "Score_number_FX_500 \<equiv> ActorID ''Score_number_FX_500''"

abbreviation Score_number_FX_2000 :: ActorID where
  "Score_number_FX_2000 \<equiv> ActorID ''Score_number_FX_2000''"

abbreviation Score_number_FX_5000 :: ActorID where
  "Score_number_FX_5000 \<equiv> ActorID ''Score_number_FX_5000''"

abbreviation Score_number_FX_10000 :: ActorID where
  "Score_number_FX_10000 \<equiv> ActorID ''Score_number_FX_10000''"

subsection \<open>Geometry, source frames and draw data\<close>

text \<open>
  \<open>base::Vector\<close>, \<open>base::Extents\<close> and \<open>base::Rect\<close> (fields \<open>x\<close>, \<open>y\<close>;
  \<open>width\<close>, \<open>height\<close>; \<open>topLeft\<close>, \<open>size\<close>). The fields carry a prefix, since
  \<open>x\<close>, \<open>y\<close> and \<open>size\<close> are wanted as variable and library names.
\<close>

record Vector =
  vec_x :: int
  vec_y :: int

record Extents =
  ext_width :: int
  ext_height :: int

record Rect =
  rect_topLeft :: Vector
  rect_size :: Extents

text \<open>
  Modelled from the spec: the decoded image of a source frame (the image type is
  declared outside the sources). Only its extents and its content are told apart.
\<close>

record Image =
  img_extents :: Extents
  img_pixels :: "nat list"

text \<open>\<open>loader::ActorData::Frame\<close> and \<open>loader::ActorData\<close>: what the asset package
  returns for one part. The source frame and the sprite frame both have a field
  \<open>mDrawOffset\<close>, the part and the draw data both a field \<open>mFrames\<close>; where it
  matters which one is meant, the field is written with the name of its record.\<close>

record Frame =
  mDrawOffset :: Vector
  mFrameImage :: Image

record ActorData =
  mDrawIndex :: int
  mFrames :: "Frame list"

text \<open>
  Modelled from the spec: the renderer interface \<open>createOwnedTexture(image)\<close>. The
  renderer is the counter of the textures it has issued; an owning texture is the
  handle it was issued under together with the image uploaded, and its extents are
  those of the image.
\<close>

record OwningTexture =
  tex_handle :: nat
  tex_image :: Image

definition extents :: "OwningTexture \<Rightarrow> Extents" where
  "extents t = img_extents (tex_image t)"

text \<open>\<open>engine::SpriteFrame\<close>, \<open>engine::SpriteDrawData\<close>, the cache entry
  \<open>SpriteData\<close> and \<open>Sprite\<close>. The pointer \<open>mpDrawData\<close> of a sprite points into the
  cache entry of an identifier (entries of the cache never move), so it is that
  identifier.\<close>

record SpriteFrame =
  mImage :: OwningTexture
  mDrawOffset :: Vector

record SpriteDrawData =
  mFrames :: "SpriteFrame list"
  mOrientationOffset :: "int option"
  mVirtualToRealFrameMap :: "int list"
  mDrawOrder :: int

record SpriteData =
  mDrawData :: SpriteDrawData
  mInitialFramesToRender :: "int list"

record Sprite =
  mpDrawData :: ActorID
  mFramesToRender :: "int list"

text \<open>The ways the model of a call ends without a result: the asset package throws
  (\<open>LoadFailure\<close>); a vector is accessed outside its range, which the source does not
  check, so that what the code does from there on is undefined
  (\<open>OutOfRangeAccess\<close>); a checked lookup reports an index outside a table
  (\<open>StructuralInconsistency\<close>, the failure the spec asks for, which only
  \<open>virtualToRealFrame\<close> as the spec describes it can report).\<close>

datatype failure = LoadFailure | OutOfRangeAccess | StructuralInconsistency

text \<open>The factory object: the renderer, the asset package and the cache.\<close>

record SpriteFactory =
  mpRenderer :: nat
  mpSpritePackage :: "ActorID \<rightharpoonup> ActorData"
  mSpriteDataCache :: "ActorID \<rightharpoonup> SpriteData"

text \<open>
  Constants and a conversion of the engine's headers that the factory uses and that
  are declared outside the sources; they are parameters of the model.
\<close>

record EngineConstants =
  PLAYER_PROJECTILE_DRAW_ORDER :: int
  MUZZLE_FLASH_DRAW_ORDER :: int
  EFFECT_DRAW_ORDER :: int
  IGNORE_RENDER_SLOT :: int
  pixelExtentsToTileExtents :: "Extents \<Rightarrow> Extents"

subsection \<open>Frame creation\<close>

definition createFrameDrawData :: "Frame \<Rightarrow> nat \<Rightarrow> SpriteFrame \<times> nat" where
  "createFrameDrawData frameData pRenderer =
     (\<lparr>mImage = \<lparr>tex_handle = pRenderer, tex_image = mFrameImage frameData\<rparr>,
       mDrawOffset = Frame.mDrawOffset frameData\<rparr>,
      Suc pRenderer)"

subsection \<open>Outcomes and unchecked vector access\<close>

definition andThen :: "failure + 'a \<Rightarrow> ('a \<Rightarrow> failure + 'b) \<Rightarrow> failure + 'b" where
  "andThen r k = (case r of Inl e \<Rightarrow> Inl e | Inr v \<Rightarrow> k v)"

text \<open>\<open>v[i]\<close> read, \<open>v[i]\<close> modified in place and \<open>v.insert(v.begin() + n, e)\<close>; none
  of them is checked by the source.\<close>

definition elemAt :: "'a list \<Rightarrow> nat \<Rightarrow> failure + 'a" where
  "elemAt v i = (if i < length v then Inr (v ! i) else Inl OutOfRangeAccess)"

definition modifyAt :: "nat \<Rightarrow> ('a \<Rightarrow> 'a) \<Rightarrow> 'a list \<Rightarrow> failure + 'a list" where
  "modifyAt i g v = (if i < length v then Inr (v[i := g (v ! i)]) else Inl OutOfRangeAccess)"

definition insertAt :: "nat \<Rightarrow> 'a \<Rightarrow> 'a list \<Rightarrow> failure + 'a list" where
  "insertAt n e v =
     (if n \<le> length v then Inr (take n v @ e # drop n v) else Inl OutOfRangeAccess)"

text \<open>The value of a sum or product of \<open>int\<close>s in the compiled code: the mathematical
  result, wrapped around at 32 bits.\<close>

definition wrapInt :: "int \<Rightarrow> int" where
  "wrapInt v = (v + 2147483648) mod 4294967296 - 2147483648"

text \<open>\<open>frame.mDrawOffset += base::Vector{dx, dy}\<close>, \<open>frame.mDrawOffset.x += dx\<close> (and
  \<open>-= 1\<close> as \<open>dx = -1\<close>), and \<open>frame.mDrawOffset.x = value\<close>.\<close>

definition addToDrawOffset :: "int \<Rightarrow> int \<Rightarrow> SpriteFrame \<Rightarrow> SpriteFrame" where
  "addToDrawOffset dx dy frame =
     frame\<lparr>SpriteFrame.mDrawOffset :=
       \<lparr>vec_x = wrapInt (vec_x (SpriteFrame.mDrawOffset frame) + dx),
        vec_y = wrapInt (vec_y (SpriteFrame.mDrawOffset frame) + dy)\<rparr>\<rparr>"

definition addToDrawOffsetX :: "int \<Rightarrow> SpriteFrame \<Rightarrow> SpriteFrame" where
  "addToDrawOffsetX dx frame =
     frame\<lparr>SpriteFrame.mDrawOffset :=
       (SpriteFrame.mDrawOffset frame)
         \<lparr>vec_x := wrapInt (vec_x (SpriteFrame.mDrawOffset frame) + dx)\<rparr>\<rparr>"

definition setDrawOffsetX :: "int \<Rightarrow> SpriteFrame \<Rightarrow> SpriteFrame" where
  "setDrawOffsetX value frame =
     frame\<lparr>SpriteFrame.mDrawOffset := (SpriteFrame.mDrawOffset frame)\<lparr>vec_x := value\<rparr>\<rparr>"

subsection \<open>The tweak pass\<close>

text \<open>The player sprite: \<open>for (int i=0; i<39; ++i) if (i != 35 && i != 36)
  frames[i].mDrawOffset.x -= 1\<close>.\<close>

function playerLoop :: "nat \<Rightarrow> SpriteFrame list \<Rightarrow> failure + SpriteFrame list" where
  "playerLoop i frames =
     (if i < 39 then
        (if i \<noteq> 35 \<and> i \<noteq> 36
         then (case modifyAt i (addToDrawOffsetX (- 1)) frames of
                 Inl e \<Rightarrow> Inl e
               | Inr frames \<Rightarrow> playerLoop (Suc i) frames)
         else playerLoop (Suc i) frames)
      else Inr frames)"
  by pat_completeness auto
termination
  by (relation "measure (\<lambda>(i, frames). 39 - i)") auto

text \<open>The radar computer: \<open>for (auto i = 8u; i < frames.size(); ++i)
  frames[i].mDrawOffset.x -= 1\<close>.\<close>

function radarLoop :: "nat \<Rightarrow> SpriteFrame list \<Rightarrow> SpriteFrame list" where
  "radarLoop i frames =
     (if i < length frames
      then radarLoop (Suc i) (frames[i := addToDrawOffsetX (- 1) (frames ! i)])
      else frames)"
  by pat_completeness auto
termination
  by (relation "measure (\<lambda>(i, frames). length frames - i)") auto

text \<open>Duke's ship: the first two frames of the third part are created a second time
  and inserted at positions 8 and 9, then moved right by one.\<close>

definition insertShipFrames ::
  "SpriteFrame list \<Rightarrow> ActorData list \<Rightarrow> nat \<Rightarrow> failure + SpriteFrame list \<times> nat" where
  "insertShipFrames frames actorParts pRenderer =
     andThen (elemAt actorParts 2) (\<lambda>part.
     andThen (elemAt (ActorData.mFrames part) 0) (\<lambda>source0.
     case createFrameDrawData source0 pRenderer of (copy0, pRenderer) \<Rightarrow>
     andThen (insertAt 8 copy0 frames) (\<lambda>frames.
     andThen (elemAt (ActorData.mFrames part) 1) (\<lambda>source1.
     case createFrameDrawData source1 pRenderer of (copy1, pRenderer) \<Rightarrow>
     andThen (insertAt 9 copy1 frames) (\<lambda>frames.
     andThen (modifyAt 8 (addToDrawOffsetX 1) frames) (\<lambda>frames.
     andThen (modifyAt 9 (addToDrawOffsetX 1) frames) (\<lambda>frames.
     Inr (frames, pRenderer))))))))"

definition applyTweaks ::
  "SpriteFrame list \<Rightarrow> ActorID \<Rightarrow> ActorData list \<Rightarrow> nat
     \<Rightarrow> failure + SpriteFrame list \<times> nat" where
  "applyTweaks frames actorId actorParts pRenderer =
     andThen
       (if actorId = Duke_LEFT \<or> actorId = Duke_RIGHT
        then playerLoop 0 frames else Inr frames) (\<lambda>frames.
     andThen
       (if actorId = Reactor_fire_LEFT \<or> actorId = Reactor_fire_RIGHT
        then modifyAt 0 (setDrawOffsetX 0) frames else Inr frames) (\<lambda>frames.
     andThen
       (if actorId = Radar_computer_terminal
        then Inr (radarLoop 8 frames) else Inr frames) (\<lambda>frames.
     andThen
       (if actorId = Dukes_ship_LEFT \<or> actorId = Dukes_ship_RIGHT \<or>
           actorId = Dukes_ship_after_exiting_LEFT \<or>
           actorId = Dukes_ship_after_exiting_RIGHT
        then insertShipFrames frames actorParts pRenderer
        else Inr (frames, pRenderer)) (\<lambda>(frames, pRenderer).
     andThen
       (if actorId = Bomb_dropping_spaceship
        then andThen (modifyAt 3 (addToDrawOffset 2 0) frames) (\<lambda>frames.
             Inr (take 4 frames))
        else Inr frames) (\<lambda>frames.
     andThen
       (if actorId = Watchbot_container_carrier
        then andThen (modifyAt 2 (addToDrawOffset 0 (- 2)) frames) (\<lambda>frames.
             Inr (take 3 frames))
        else Inr frames) (\<lambda>frames.
     Inr (frames, pRenderer)))))))"

subsection \<open>Orientation offsets and frame maps\<close>

definition orientationOffsetForActor :: "ActorID \<Rightarrow> int option" where
  "orientationOffsetForActor actorId =
     (if actorId = Duke_LEFT \<or> actorId = Duke_RIGHT then Some 39
      else if actorId = Snake then Some 9
      else if actorId = Eyeball_thrower_LEFT then Some 10
      else if actorId = Skeleton then Some 4
      else if actorId = Spider then Some 13
      else if actorId = Red_box_turkey then Some 2
      else if actorId = Rigelatin_soldier then Some 4
      else if actorId = Ugly_green_bird then Some 3
      else if actorId = Big_green_cat_LEFT \<or> actorId = Big_green_cat_RIGHT then Some 3
      else if actorId = Spiked_green_creature_LEFT \<or>
              actorId = Spiked_green_creature_RIGHT then Some 6
      else if actorId = Unicycle_bot then Some 4
      else if actorId = Dukes_ship_LEFT \<or> actorId = Dukes_ship_RIGHT \<or>
              actorId = Dukes_ship_after_exiting_LEFT \<or>
              actorId = Dukes_ship_after_exiting_RIGHT then Some 6
      else None)"

definition SPIDER_FRAME_MAP :: "int list" where
  "SPIDER_FRAME_MAP =
     [3, 4, 5, 9, 10, 11, 6, 8, 9, 14, 15, 12, 13,
      0, 1, 2, 6, 7, 8, 6, 8, 9, 12, 13, 14, 15]"

definition UNICYCLE_FRAME_MAP :: "int list" where
  "UNICYCLE_FRAME_MAP =
     [0, 5, 1, 2,
      0, 5, 3, 4]"

definition DUKES_SHIP_FRAME_MAP :: "int list" where
  "DUKES_SHIP_FRAME_MAP =
     [0, 1, 10, 11, 8, 9,
      2, 3, 6, 7, 4, 5]"

definition frameMapForActor :: "ActorID \<Rightarrow> int list" where
  "frameMapForActor actorId =
     (if actorId = Spider then SPIDER_FRAME_MAP
      else if actorId = Unicycle_bot then UNICYCLE_FRAME_MAP
      else if actorId = Dukes_ship_LEFT \<or> actorId = Dukes_ship_RIGHT \<or>
              actorId = Dukes_ship_after_exiting_LEFT \<or>
              actorId = Dukes_ship_after_exiting_RIGHT then DUKES_SHIP_FRAME_MAP
      else [])"

text \<open>
  Modelled from the spec: \<open>virtualToRealFrame\<close>, which the factory calls and which
  is defined outside the sources. Section 4.5: for orientation \<open>k\<close> the index is
  \<open>virtualIndex + k * orientationOffset\<close>; with a remap table the real index is
  \<open>table[index]\<close>, the lookup checked against the table's length; with neither the
  virtual index is the real index. The tables of the source have two runs of
  \<open>orientationOffset\<close> entries each, so the offset is applied before the lookup.
\<close>

definition virtualToRealFrame ::
  "int \<Rightarrow> SpriteDrawData \<Rightarrow> nat option \<Rightarrow> failure + int" where
  "virtualToRealFrame virtualFrame drawData orientation =
     (let shifted =
        (case orientation of
           None \<Rightarrow> virtualFrame
         | Some k \<Rightarrow>
             (case mOrientationOffset drawData of
                None \<Rightarrow> virtualFrame
              | Some orientationOffset \<Rightarrow> virtualFrame + int k * orientationOffset));
          table = mVirtualToRealFrameMap drawData
      in if table = [] then Inr shifted
         else if 0 \<le> shifted \<and> shifted < int (length table) then Inr (table ! nat shifted)
         else Inl StructuralInconsistency)"

subsection \<open>The part resolver\<close>

definition actorIDListForActor :: "ActorID \<Rightarrow> ActorID list" where
  "actorIDListForActor ID =
     (if ID = Hoverbot then [Hoverbot, Hoverbot_teleport_FX]
      else if ID = Duke_LEFT \<or> ID = Duke_RIGHT then [Duke_LEFT, Duke_RIGHT]
      else if ID = Blue_bonus_globe_1 \<or> ID = Blue_bonus_globe_2 \<or>
              ID = Blue_bonus_globe_3 \<or> ID = Blue_bonus_globe_4
        then [ID, Bonus_globe_shell]
      else if ID = Teleporter_1 then [Teleporter_2]
      else if ID = Green_slime_blob
        then [Green_slime_blob, Green_slime_blob_flying_on_ceiling]
      else if ID = Eyeball_thrower_LEFT
        then [Eyeball_thrower_LEFT, Eyeball_thrower_RIGHT]
      else if ID = Bomb_dropping_spaceship then [Bomb_dropping_spaceship, Napalm_bomb]
      else if ID = Blowing_fan then [Blowing_fan, Blowing_fan_threads_on_top]
      else if ID = Missile_intact then [Missile_intact, Missile_exhaust_flame]
      else if ID = Blue_guard_LEFT \<or> ID = Blue_guard_using_a_terminal
        then [Blue_guard_RIGHT]
      else if ID = Enemy_laser_shot_LEFT \<or> ID = Enemy_laser_shot_RIGHT
        then [Enemy_laser_shot_RIGHT]
      else if ID = Red_box_turkey then [Turkey]
      else if ID = Messenger_drone_1 \<or> ID = Messenger_drone_2 \<or>
              ID = Messenger_drone_3 \<or> ID = Messenger_drone_4 \<or>
              ID = Messenger_drone_5
        then [Messenger_drone_body, Messenger_drone_part_1, Messenger_drone_part_2,
              Messenger_drone_part_3, Messenger_drone_exhaust_flame_1,
              Messenger_drone_exhaust_flame_2, Messenger_drone_exhaust_flame_3, ID]
      else if ID = Big_green_cat_LEFT \<or> ID = Big_green_cat_RIGHT
        then [Big_green_cat_LEFT, Big_green_cat_RIGHT]
      else if ID = Spiked_green_creature_LEFT \<or> ID = Spiked_green_creature_RIGHT
        then [Spiked_green_creature_LEFT, Spiked_green_creature_RIGHT]
      else if ID = Dukes_ship_LEFT \<or> ID = Dukes_ship_RIGHT \<or>
              ID = Dukes_ship_after_exiting_LEFT \<or> ID = Dukes_ship_after_exiting_RIGHT
        then [Dukes_ship_LEFT, Dukes_ship_RIGHT, Dukes_ship_exhaust_flames]
      else if ID = Watchbot_container_carrier
        then [Watchbot_container_carrier, Watchbot_container]
      else [ID])"

subsection \<open>Default visible frames\<close>

definition configureSprite :: "EngineConstants \<Rightarrow> Sprite \<Rightarrow> ActorID \<Rightarrow> Sprite" where
  "configureSprite K sprite actorID =
     (if actorID = Hoverbot then sprite\<lparr>mFramesToRender := [0]\<rparr>
      else if actorID = Bomb_dropping_spaceship then sprite\<lparr>mFramesToRender := [3, 0, 1]\<rparr>
      else if actorID = Green_slime_blob then sprite\<lparr>mFramesToRender := [0]\<rparr>
      else if actorID = Eyeball_thrower_LEFT then sprite\<lparr>mFramesToRender := [0]\<rparr>
      else if actorID = Sentry_robot_generator then sprite\<lparr>mFramesToRender := [0, 4]\<rparr>
      else if actorID = Missile_intact then sprite\<lparr>mFramesToRender := [0]\<rparr>
      else if actorID = Metal_grabber_claw then sprite\<lparr>mFramesToRender := [1]\<rparr>
      else if actorID = Spider then sprite\<lparr>mFramesToRender := [6]\<rparr>
      else if actorID = Blue_guard_LEFT then sprite\<lparr>mFramesToRender := [6]\<rparr>
      else if actorID = BOSS_Episode_1 then sprite\<lparr>mFramesToRender := [0, 2]\<rparr>
      else if actorID = BOSS_Episode_3
        then sprite\<lparr>mFramesToRender := [IGNORE_RENDER_SLOT K, 1, 0]\<rparr>
      else if actorID = BOSS_Episode_4 then sprite\<lparr>mFramesToRender := [0, 1]\<rparr>
      else if actorID = Rocket_elevator then sprite\<lparr>mFramesToRender := [5, 0]\<rparr>
      else if actorID = Blue_guard_using_a_terminal
        then sprite\<lparr>mFramesToRender := [12]\<rparr>
      else if actorID = Lava_fountain then sprite\<lparr>mFramesToRender := []\<rparr>
      else if actorID = Radar_computer_terminal
        then sprite\<lparr>mFramesToRender := [0, 1, 2, 3]\<rparr>
      else if actorID = Watchbot_container then sprite\<lparr>mFramesToRender := [0, 1]\<rparr>
      else if actorID = Watchbot_container_carrier
        then sprite\<lparr>mFramesToRender := [0, 2]\<rparr>
      else if actorID = Super_force_field_LEFT then sprite\<lparr>mFramesToRender := [0, 3]\<rparr>
      else if actorID = Big_green_cat_LEFT \<or> actorID = Big_green_cat_RIGHT \<or>
              actorID = Spiked_green_creature_LEFT \<or>
              actorID = Spiked_green_creature_RIGHT \<or>
              actorID = Duke_LEFT \<or> actorID = Duke_RIGHT \<or>
              actorID = Dukes_ship_LEFT \<or> actorID = Dukes_ship_RIGHT \<or>
              actorID = Dukes_ship_after_exiting_LEFT \<or>
              actorID = Dukes_ship_after_exiting_RIGHT
        then sprite\<lparr>mFramesToRender := [0]\<rparr>
      else sprite)"

subsection \<open>The draw-order classifier\<close>

text \<open>The case labels of the four groups of \<open>adjustedDrawOrder\<close>, in source order.\<close>

definition playerProjectileActors :: "ActorID list" where
  "playerProjectileActors =
     [Duke_rocket_up, Duke_rocket_down, Duke_rocket_left, Duke_rocket_right,
      Duke_laser_shot_horizontal, Duke_laser_shot_vertical,
      Duke_regular_shot_horizontal, Duke_regular_shot_vertical,
      Duke_flame_shot_up, Duke_flame_shot_down, Duke_flame_shot_left,
      Duke_flame_shot_right, Reactor_fire_LEFT, Reactor_fire_RIGHT]"

definition muzzleFlashActors :: "ActorID list" where
  "muzzleFlashActors =
     [Muzzle_flash_up, Muzzle_flash_down, Muzzle_flash_left, Muzzle_flash_right]"

definition effectActors :: "ActorID list" where
  "effectActors =
     [Explosion_FX_1, Explosion_FX_2, Shot_impact_FX, Smoke_puff_FX,
      Hoverbot_debris_1, Hoverbot_debris_2,
      Nuclear_waste_can_debris_1, Nuclear_waste_can_debris_2,
      Nuclear_waste_can_debris_3, Nuclear_waste_can_debris_4,
      Flame_thrower_fire_RIGHT, Flame_thrower_fire_LEFT, Nuclear_explosion,
      Watchbot_container_debris_1, Watchbot_container_debris_2, Fire_bomb_fire,
      Duke_death_particles, Bonus_globe_debris_1, Bonus_globe_debris_2,
      White_circle_flash_FX, Nuclear_waste_can_green_slime_inside, Smoke_cloud_FX,
      Biological_enemy_debris, Missile_debris, Eyeball_projectile,
      Enemy_laser_muzzle_flash_1, Enemy_laser_muzzle_flash_2,
      Metal_grabber_claw_debris_1, Metal_grabber_claw_debris_2,
      Yellow_fireball_FX, Green_fireball_FX, Blue_fireball_FX,
      Coke_can_debris_1, Coke_can_debris_2,
      Spiked_green_creature_eye_FX_LEFT, Spiked_green_creature_eye_FX_RIGHT,
      Spiked_green_creature_stone_debris_1_LEFT,
      Spiked_green_creature_stone_debris_2_LEFT,
      Spiked_green_creature_stone_debris_3_LEFT,
      Spiked_green_creature_stone_debris_4_LEFT,
      Spiked_green_creature_stone_debris_1_RIGHT,
      Spiked_green_creature_stone_debris_2_RIGHT,
      Spiked_green_creature_stone_debris_3_RIGHT,
      Spiked_green_creature_stone_debris_4_RIGHT,
      Spider_shaken_off, Windblown_spider_generator, Spider_debris_2,
      Spider_blowing_in_wind, Prisoner_hand_debris, Rigelatin_soldier_projectile]"

definition scoreNumberActors :: "ActorID list" where
  "scoreNumberActors =
     [Score_number_FX_100, Score_number_FX_500, Score_number_FX_2000,
      Score_number_FX_5000, Score_number_FX_10000]"

definition scale :: "int \<Rightarrow> int" where
  "scale drawOrderValue = wrapInt (drawOrderValue * 10)"

definition adjustedDrawOrder :: "EngineConstants \<Rightarrow> ActorID \<Rightarrow> int \<Rightarrow> int" where
  "adjustedDrawOrder K actorId baseDrawOrder =
     (if actorId \<in> set playerProjectileActors then scale (PLAYER_PROJECTILE_DRAW_ORDER K)
      else if actorId \<in> set muzzleFlashActors then scale (MUZZLE_FLASH_DRAW_ORDER K)
      else if actorId \<in> set effectActors then scale (EFFECT_DRAW_ORDER K)
      else if actorId \<in> set scoreNumberActors then scale (EFFECT_DRAW_ORDER K)
      else if actorId = Napalm_bomb then wrapInt (scale baseDrawOrder - 1)
      else scale baseDrawOrder)"

subsection \<open>The factory\<close>

text \<open>The constructor stores the renderer and the package; the cache starts empty.\<close>

definition newSpriteFactory :: "nat \<Rightarrow> (ActorID \<rightharpoonup> ActorData) \<Rightarrow> SpriteFactory" where
  "newSpriteFactory pRenderer pSpritePackage =
     \<lparr>mpRenderer = pRenderer, mpSpritePackage = pSpritePackage,
      mSpriteDataCache = Map.empty\<rparr>"

text \<open>\<open>utils::transformed(actorPartIds, loadActor)\<close>: every part is loaded before
  any frame is created; a part the package cannot supply ends the call.\<close>

fun loadParts :: "(ActorID \<rightharpoonup> ActorData) \<Rightarrow> ActorID list \<Rightarrow> failure + ActorData list" where
  "loadParts package [] = Inr []"
| "loadParts package (partId # partIds) =
     (case package partId of
        None \<Rightarrow> Inl LoadFailure
      | Some actorData \<Rightarrow>
          andThen (loadParts package partIds) (\<lambda>rest. Inr (actorData # rest)))"

text \<open>The locals of \<open>createOrFindData\<close> that its loop over the parts updates.\<close>

record Assembly =
  drawFrames :: "SpriteFrame list"
  lastDrawOrder :: int
  lastFrameCount :: int
  framesToRender :: "int list"
  renderer :: nat

fun appendFrames :: "Frame list \<Rightarrow> SpriteFrame list \<times> nat \<Rightarrow> SpriteFrame list \<times> nat" where
  "appendFrames [] (frames, pRenderer) = (frames, pRenderer)"
| "appendFrames (frameData # rest) (frames, pRenderer) =
     (case createFrameDrawData frameData pRenderer of
        (frame, pRenderer) \<Rightarrow> appendFrames rest (frames @ [frame], pRenderer))"

fun assembleParts :: "ActorData list \<Rightarrow> Assembly \<Rightarrow> Assembly" where
  "assembleParts [] a = a"
| "assembleParts (actorData # rest) a =
     (case appendFrames (ActorData.mFrames actorData) (drawFrames a, renderer a) of
        (frames, pRenderer) \<Rightarrow>
          assembleParts rest
            \<lparr>drawFrames = frames,
             lastDrawOrder = mDrawIndex actorData,
             lastFrameCount = int (length (ActorData.mFrames actorData)),
             framesToRender = framesToRender a @ [lastFrameCount a],
             renderer = pRenderer\<rparr>)"

definition createOrFindData ::
  "EngineConstants \<Rightarrow> SpriteFactory \<Rightarrow> ActorID \<Rightarrow> failure + SpriteData \<times> SpriteFactory" where
  "createOrFindData K factory mainId =
     (case mSpriteDataCache factory mainId of
        Some data \<Rightarrow> Inr (data, factory)
      | None \<Rightarrow>
          andThen (loadParts (mpSpritePackage factory) (actorIDListForActor mainId))
            (\<lambda>actorParts.
          let a = assembleParts actorParts
                    \<lparr>drawFrames = [], lastDrawOrder = 0, lastFrameCount = 0,
                     framesToRender = [], renderer = mpRenderer factory\<rparr>;
              drawData =
                \<lparr>mFrames = drawFrames a,
                 mOrientationOffset = orientationOffsetForActor mainId,
                 mVirtualToRealFrameMap = frameMapForActor mainId,
                 mDrawOrder = adjustedDrawOrder K mainId (lastDrawOrder a)\<rparr>
          in andThen (applyTweaks (SpriteDrawData.mFrames drawData) mainId actorParts
                        (renderer a))
            (\<lambda>(frames, pRenderer).
          let data = \<lparr>mDrawData = drawData\<lparr>mFrames := frames\<rparr>,
                      mInitialFramesToRender = framesToRender a\<rparr>
          in Inr (data,
                  factory\<lparr>mpRenderer := pRenderer,
                    mSpriteDataCache := (mSpriteDataCache factory)(mainId \<mapsto> data)\<rparr>))))"

definition createSprite ::
  "EngineConstants \<Rightarrow> SpriteFactory \<Rightarrow> ActorID \<Rightarrow> failure + Sprite \<times> SpriteFactory" where
  "createSprite K factory actorId =
     andThen (createOrFindData K factory actorId) (\<lambda>(data, factory).
     Inr (configureSprite K
            \<lparr>mpDrawData = actorId, mFramesToRender = mInitialFramesToRender data\<rparr>
            actorId,
          factory))"

text \<open>\<open>mFrames[realFrame]\<close> with an \<open>int\<close> index: a negative index converts to a
  huge unsigned one, so it is out of range as well.\<close>

definition frameAt :: "SpriteFrame list \<Rightarrow> int \<Rightarrow> failure + SpriteFrame" where
  "frameAt frames realFrame =
     (if 0 \<le> realFrame \<and> realFrame < int (length frames)
      then Inr (frames ! nat realFrame) else Inl OutOfRangeAccess)"

definition actorFrameRect ::
  "EngineConstants \<Rightarrow> SpriteFactory \<Rightarrow> ActorID \<Rightarrow> int \<Rightarrow> failure + Rect \<times> SpriteFactory" where
  "actorFrameRect K factory actorId frame =
     andThen (createOrFindData K factory actorId) (\<lambda>(data, factory).
     andThen (virtualToRealFrame 0 (mDrawData data) None) (\<lambda>realFrame.
     andThen (frameAt (SpriteDrawData.mFrames (mDrawData data)) realFrame) (\<lambda>frameData.
     Inr (\<lparr>rect_topLeft = SpriteFrame.mDrawOffset frameData,
           rect_size = pixelExtentsToTileExtents K (extents (mImage frameData))\<rparr>,
          factory))))"

subsection \<open>Factory states\<close>

text \<open>The states a factory goes through: it is constructed with an empty cache, and
  its cache only changes in calls of \<open>createSprite\<close> and \<open>actorFrameRect\<close>.\<close>

inductive reachable :: "EngineConstants \<Rightarrow> SpriteFactory \<Rightarrow> bool" for K where
  constructed: "reachable K (newSpriteFactory pRenderer pSpritePackage)"
| afterCreateSprite:
    "reachable K factory \<Longrightarrow> createSprite K factory actorId = Inr (sprite, factory')
      \<Longrightarrow> reachable K factory'"
| afterActorFrameRect:
    "reachable K factory \<Longrightarrow> actorFrameRect K factory actorId frame = Inr (rect, factory')
      \<Longrightarrow> reachable K factory'"

subsection \<open>Reference notions the properties are stated against\<close>

text \<open>The start of every part in the concatenated frame sequence: the number of
  frames of the parts before it (spec 4.2, step 2: "the starting index (current total
  frame count)").\<close>

fun partStartIndices :: "int \<Rightarrow> ActorData list \<Rightarrow> int list" where
  "partStartIndices n [] = []"
| "partStartIndices n (actorData # rest) =
     n # partStartIndices (n + int (length (ActorData.mFrames actorData))) rest"

text \<open>The list \<open>framesToRender\<close> that the loop of \<open>createOrFindData\<close> records for the
  parts it is given: the list a cache entry keeps as \<open>mInitialFramesToRender\<close>. It is
  the output of the loop, not a reference for it: the starts of the parts are
  \<open>partStartIndices\<close>.\<close>

definition recordedPartBoundaries :: "ActorData list \<Rightarrow> int list" where
  "recordedPartBoundaries actorParts =
     framesToRender
       (assembleParts actorParts
          \<lparr>drawFrames = [], lastDrawOrder = 0, lastFrameCount = 0,
           framesToRender = [], renderer = 0\<rparr>)"

text \<open>The cache entry a call of \<open>createOrFindData\<close> returns, if it returns one.\<close>

definition assembledData :: "EngineConstants \<Rightarrow> SpriteFactory \<Rightarrow> ActorID \<Rightarrow> SpriteData option" where
  "assembledData K factory actorId =
     (case createOrFindData K factory actorId of
        Inl e \<Rightarrow> None
      | Inr (data, factory') \<Rightarrow> Some data)"

text \<open>The invariant of the cache: the list kept with an entry is the list the loop
  records for the parts of the entry's identifier.\<close>

definition cacheRecordsAssembly :: "SpriteFactory \<Rightarrow> bool" where
  "cacheRecordsAssembly factory \<longleftrightarrow>
     (\<forall>actorId data. mSpriteDataCache factory actorId = Some data \<longrightarrow>
        (\<exists>actorParts.
           loadParts (mpSpritePackage factory) (actorIDListForActor actorId) = Inr actorParts \<and>
           mInitialFramesToRender data = recordedPartBoundaries actorParts))"

text \<open>The default visible frames as a table: the case labels of \<open>configureSprite\<close>
  with the list each one assigns.\<close>

definition defaultVisibleFrames :: "EngineConstants \<Rightarrow> (ActorID \<times> int list) list" where
  "defaultVisibleFrames K =
     [(Hoverbot, [0]),
      (Bomb_dropping_spaceship, [3, 0, 1]),
      (Green_slime_blob, [0]),
      (Eyeball_thrower_LEFT, [0]),
      (Sentry_robot_generator, [0, 4]),
      (Missile_intact, [0]),
      (Metal_grabber_claw, [1]),
      (Spider, [6]),
      (Blue_guard_LEFT, [6]),
      (BOSS_Episode_1, [0, 2]),
      (BOSS_Episode_3, [IGNORE_RENDER_SLOT K, 1, 0]),
      (BOSS_Episode_4, [0, 1]),
      (Rocket_elevator, [5, 0]),
      (Blue_guard_using_a_terminal, [12]),
      (Lava_fountain, []),
      (Radar_computer_terminal, [0, 1, 2, 3]),
      (Watchbot_container, [0, 1]),
      (Watchbot_container_carrier, [0, 2]),
      (Super_force_field_LEFT, [0, 3]),
      (Big_green_cat_LEFT, [0]),
      (Big_green_cat_RIGHT, [0]),
      (Spiked_green_creature_LEFT, [0]),
      (Spiked_green_creature_RIGHT, [0]),
      (Duke_LEFT, [0]),
      (Duke_RIGHT, [0]),
      (Dukes_ship_LEFT, [0]),
      (Dukes_ship_RIGHT, [0]),
      (Dukes_ship_after_exiting_LEFT, [0]),
      (Dukes_ship_after_exiting_RIGHT, [0])]"


subsection \<open>Example inputs\<close>

text \<open>Constants, source frames and a package to evaluate the factory on. Frame \<open>n\<close>
  of the example has its own image and its own draw offset. Duke's ship has the frame
  counts of the layout described in \<open>applyTweaks\<close> (2, 2 and 6); the reactor fire and
  the lava fountain have no frame at all; the second teleporter cannot be loaded.\<close>

definition exampleConstants :: EngineConstants where
  "exampleConstants =
     \<lparr>PLAYER_PROJECTILE_DRAW_ORDER = 20, MUZZLE_FLASH_DRAW_ORDER = 12,
      EFFECT_DRAW_ORDER = 13, IGNORE_RENDER_SLOT = - 1,
      pixelExtentsToTileExtents =
        (\<lambda>e. \<lparr>ext_width = ext_width e div 8, ext_height = ext_height e div 8\<rparr>)\<rparr>"

definition exampleFrame :: "nat \<Rightarrow> Frame" where
  "exampleFrame n =
     \<lparr>Frame.mDrawOffset = \<lparr>vec_x = int n, vec_y = 2 * int n\<rparr>,
      mFrameImage =
        \<lparr>img_extents = \<lparr>ext_width = 8 * (int n + 1), ext_height = 16\<rparr>,
         img_pixels = [n]\<rparr>\<rparr>"

definition exampleActor :: "int \<Rightarrow> nat list \<Rightarrow> ActorData" where
  "exampleActor drawIndex ns = \<lparr>mDrawIndex = drawIndex, ActorData.mFrames = map exampleFrame ns\<rparr>"

definition examplePackage :: "ActorID \<rightharpoonup> ActorData" where
  "examplePackage partId =
     (if partId = Dukes_ship_LEFT then Some (exampleActor 5 [0, 1])
      else if partId = Dukes_ship_RIGHT then Some (exampleActor 5 [2, 3])
      else if partId = Dukes_ship_exhaust_flames
        then Some (exampleActor 5 [4, 5, 6, 7, 8, 9])
      else if partId = Bomb_dropping_spaceship
        then Some (exampleActor 5 [10, 11, 12, 13, 14])
      else if partId = Napalm_bomb then Some (exampleActor 5 [20, 21, 22])
      else if partId = Reactor_fire_LEFT then Some (exampleActor 3 [])
      else if partId = Lava_fountain then Some (exampleActor 4 [])
      else if partId = Teleporter_2 then None
      else Some (exampleActor 7 [30, 31]))"

definition exampleFactory :: SpriteFactory where
  "exampleFactory = newSpriteFactory 0 examplePackage"

section \<open>Properties\<close>

subsection \<open>Outcomes\<close>

lemma andThen_Inr [simp]: "andThen (Inr v) k = k v"
  by (simp add: andThen_def)

lemma andThen_Inl [simp]: "andThen (Inl e) k = Inl e"
  by (simp add: andThen_def)

lemma andThen_assoc [simp]:
  "andThen (andThen r k) h = andThen r (\<lambda>v. andThen (k v) h)"
  by (cases r) simp_all

lemma andThen_eq_Inr: "andThen r k = Inr y \<longleftrightarrow> (\<exists>v. r = Inr v \<and> k v = Inr y)"
  by (cases r) simp_all


lemmas example_defs =
  exampleFactory_def newSpriteFactory_def examplePackage_def exampleActor_def
  exampleFrame_def exampleConstants_def

lemmas access_defs = elemAt_def modifyAt_def insertAt_def frameAt_def

subsection \<open>The draw-order classifier\<close>

text \<open>The case labels of \<open>adjustedDrawOrder\<close> are pairwise distinct, as the labels of
  a \<open>switch\<close> have to be.\<close>

lemma caseLabels_distinct:
  "distinct (playerProjectileActors @ muzzleFlashActors @ effectActors @
             scoreNumberActors @ [Napalm_bomb])"
  by (simp add: playerProjectileActors_def muzzleFlashActors_def effectActors_def
      scoreNumberActors_def)

lemma caseLabels_disjoint:
  "set playerProjectileActors \<inter> set muzzleFlashActors = {}"
  "set playerProjectileActors \<inter> set effectActors = {}"
  "set playerProjectileActors \<inter> set scoreNumberActors = {}"
  "set muzzleFlashActors \<inter> set effectActors = {}"
  "set muzzleFlashActors \<inter> set scoreNumberActors = {}"
  "Napalm_bomb \<notin> set playerProjectileActors"
  "Napalm_bomb \<notin> set muzzleFlashActors"
  "Napalm_bomb \<notin> set effectActors"
  "Napalm_bomb \<notin> set scoreNumberActors"
  using caseLabels_distinct by auto

lemma wrapInt_id: "- 2147483648 \<le> v \<Longrightarrow> v \<le> 2147483647 \<Longrightarrow> wrapInt v = v"
  by (simp add: wrapInt_def)

lemma scale_in_range:
  "- 214748364 \<le> v \<Longrightarrow> v \<le> 214748364 \<Longrightarrow> scale v = v * 10"
  by (simp add: scale_def wrapInt_id)

text \<open>Beyond these bounds the product does not fit an \<open>int\<close> and wraps around.\<close>

lemma scale_overflow: "scale 300000000 = - 1294967296"
  by (simp add: scale_def wrapInt_def)

text \<open>
  Claim C6. For a base draw order of at most 214748364 in absolute value (so that its
  product with 10 is an \<open>int\<close>), an identifier outside the four category groups and
  other than the napalm bomb gets its base draw order times 10, and the napalm bomb
  (the bomb dropped by the bomb-dropping spaceship) gets the scaled base order minus
  one. Player projectiles, muzzle flashes, effects and score numbers get the scaled
  constant of their category, whatever the base order is; for a constant within the
  same bounds that is the constant times 10. With base order 5 the first two are 50
  and 49.
\<close>

theorem adjustedDrawOrder_classes:
  "(- 214748364 \<le> baseDrawOrder \<and> baseDrawOrder \<le> 214748364 \<and>
    actorId \<notin> set playerProjectileActors \<and> actorId \<notin> set muzzleFlashActors \<and>
    actorId \<notin> set effectActors \<and> actorId \<notin> set scoreNumberActors \<and>
    actorId \<noteq> Napalm_bomb
      \<longrightarrow> adjustedDrawOrder K actorId baseDrawOrder = baseDrawOrder * 10) \<and>
   (- 214748364 \<le> baseDrawOrder \<and> baseDrawOrder \<le> 214748364
      \<longrightarrow> adjustedDrawOrder K Napalm_bomb baseDrawOrder = baseDrawOrder * 10 - 1) \<and>
   (actorId \<in> set playerProjectileActors
      \<longrightarrow> adjustedDrawOrder K actorId baseDrawOrder =
            scale (PLAYER_PROJECTILE_DRAW_ORDER K)) \<and>
   (actorId \<in> set muzzleFlashActors
      \<longrightarrow> adjustedDrawOrder K actorId baseDrawOrder = scale (MUZZLE_FLASH_DRAW_ORDER K)) \<and>
   (actorId \<in> set effectActors \<union> set scoreNumberActors
      \<longrightarrow> adjustedDrawOrder K actorId baseDrawOrder = scale (EFFECT_DRAW_ORDER K)) \<and>
   (- 214748364 \<le> categoryOrder \<and> categoryOrder \<le> 214748364
      \<longrightarrow> scale categoryOrder = categoryOrder * 10)"
proof (intro conjI impI)
  assume "- 214748364 \<le> baseDrawOrder \<and> baseDrawOrder \<le> 214748364"
  then show "adjustedDrawOrder K Napalm_bomb baseDrawOrder = baseDrawOrder * 10 - 1"
    by (simp add: adjustedDrawOrder_def scale_in_range wrapInt_id caseLabels_disjoint)
next
  assume "actorId \<in> set muzzleFlashActors"
  then show "adjustedDrawOrder K actorId baseDrawOrder = scale (MUZZLE_FLASH_DRAW_ORDER K)"
    using caseLabels_disjoint(1) by (auto simp: adjustedDrawOrder_def)
next
  assume "actorId \<in> set effectActors \<union> set scoreNumberActors"
  then show "adjustedDrawOrder K actorId baseDrawOrder = scale (EFFECT_DRAW_ORDER K)"
    using caseLabels_disjoint(2-5) by (auto simp: adjustedDrawOrder_def)
qed (simp_all add: adjustedDrawOrder_def scale_in_range)

theorem adjustedDrawOrder_classes_witness:
  "adjustedDrawOrder exampleConstants Hoverbot 5 = 50 \<and>
   adjustedDrawOrder exampleConstants Napalm_bomb 5 = 49 \<and>
   adjustedDrawOrder exampleConstants Duke_rocket_up 5 = 200 \<and>
   adjustedDrawOrder exampleConstants Muzzle_flash_left 5 = 120 \<and>
   adjustedDrawOrder exampleConstants Score_number_FX_500 5 = 130"
  using adjustedDrawOrder_classes [of 5 Hoverbot exampleConstants 20]
    adjustedDrawOrder_classes [of 5 Duke_rocket_up exampleConstants 20]
    adjustedDrawOrder_classes [of 5 Muzzle_flash_left exampleConstants 12]
    adjustedDrawOrder_classes [of 5 Score_number_FX_500 exampleConstants 13]
  by (simp add: playerProjectileActors_def muzzleFlashActors_def effectActors_def
      scoreNumberActors_def exampleConstants_def)

subsection \<open>Orientation offsets and frame maps\<close>

lemma virtualToRealFrame_identity:
  "mOrientationOffset drawData = None \<Longrightarrow> mVirtualToRealFrameMap drawData = []
    \<Longrightarrow> virtualToRealFrame virtualFrame drawData orientation = Inr virtualFrame"
  by (simp add: virtualToRealFrame_def split: option.splits)

lemma frameMapForActor_nonempty:
  "frameMapForActor actorId \<noteq> [] \<longleftrightarrow>
     actorId \<in> {Spider, Unicycle_bot, Dukes_ship_LEFT, Dukes_ship_RIGHT,
       Dukes_ship_after_exiting_LEFT, Dukes_ship_after_exiting_RIGHT}"
  by (simp add: frameMapForActor_def SPIDER_FRAME_MAP_def UNICYCLE_FRAME_MAP_def
      DUKES_SHIP_FRAME_MAP_def)

text \<open>
  Claim C3, as the code has it. The two mechanisms are not exclusive: the identifiers
  with a remap table (the spider, the unicycle bot and the four identifiers of Duke's
  ship) all have an orientation offset as well, and the table has one run of
  \<open>orientationOffset\<close> entries per orientation. An identifier without a table may or
  may not have an offset. When both are absent the virtual index is the real index.
\<close>

theorem frameMap_with_orientationOffset:
  "(frameMapForActor actorId \<noteq> [] \<longrightarrow>
      (\<exists>offset. orientationOffsetForActor actorId = Some offset \<and>
         int (length (frameMapForActor actorId)) = 2 * offset)) \<and>
   (orientationOffsetForActor actorId = None \<longrightarrow> frameMapForActor actorId = []) \<and>
   (mOrientationOffset drawData = None \<and> mVirtualToRealFrameMap drawData = []
      \<longrightarrow> virtualToRealFrame virtualFrame drawData orientation = Inr virtualFrame)"
proof (intro conjI impI)
  assume "frameMapForActor actorId \<noteq> []"
  then have "actorId \<in> {Spider, Unicycle_bot, Dukes_ship_LEFT, Dukes_ship_RIGHT,
       Dukes_ship_after_exiting_LEFT, Dukes_ship_after_exiting_RIGHT}"
    by (simp only: frameMapForActor_nonempty)
  then show "\<exists>offset. orientationOffsetForActor actorId = Some offset \<and>
         int (length (frameMapForActor actorId)) = 2 * offset"
    by (elim insertE emptyE; simp add: frameMapForActor_def orientationOffsetForActor_def
        SPIDER_FRAME_MAP_def UNICYCLE_FRAME_MAP_def DUKES_SHIP_FRAME_MAP_def)
next
  assume "orientationOffsetForActor actorId = None"
  then show "frameMapForActor actorId = []"
    by (simp add: frameMapForActor_def orientationOffsetForActor_def split: if_splits)
next
  assume "mOrientationOffset drawData = None \<and> mVirtualToRealFrameMap drawData = []"
  then show "virtualToRealFrame virtualFrame drawData orientation = Inr virtualFrame"
    by (simp add: virtualToRealFrame_identity)
qed

theorem frameMap_with_orientationOffset_witness:
  "orientationOffsetForActor Spider = Some 13 \<and> length (frameMapForActor Spider) = 26 \<and>
   frameMapForActor Hoverbot = [] \<and>
   virtualToRealFrame 5
     \<lparr>mFrames = [], mOrientationOffset = None, mVirtualToRealFrameMap = [],
      mDrawOrder = 0\<rparr> (Some 1) = Inr 5"
  using frameMap_with_orientationOffset [of Spider
      "\<lparr>mFrames = [], mOrientationOffset = None, mVirtualToRealFrameMap = [],
        mDrawOrder = 0\<rparr>" 5 "Some 1"]
    frameMap_with_orientationOffset [of Hoverbot
      "\<lparr>mFrames = [], mOrientationOffset = None, mVirtualToRealFrameMap = [],
        mDrawOrder = 0\<rparr>" 5 "Some 1"]
  by (simp add: frameMapForActor_def orientationOffsetForActor_def SPIDER_FRAME_MAP_def)

text \<open>The spider has an orientation offset and a remap table at once, so neither
  exclusion of claim C3 holds for it.\<close>

theorem spider_has_offset_and_frameMap:
  "orientationOffsetForActor Spider = Some 13 \<and>
   frameMapForActor Spider = SPIDER_FRAME_MAP \<and> SPIDER_FRAME_MAP \<noteq> [] \<and>
   \<not> (orientationOffsetForActor Spider \<noteq> None \<longrightarrow> frameMapForActor Spider = []) \<and>
   \<not> (frameMapForActor Spider \<noteq> [] \<longrightarrow> orientationOffsetForActor Spider = None)"
  by (simp add: frameMapForActor_def orientationOffsetForActor_def SPIDER_FRAME_MAP_def)

subsection \<open>The assembly loop\<close>

lemma appendFrames_renderer:
  "snd (appendFrames frameDatas (frames, pRenderer)) = pRenderer + length frameDatas"
  by (induction frameDatas arbitrary: frames pRenderer)
     (simp_all add: createFrameDrawData_def)

lemma appendFrames_length:
  "length (fst (appendFrames frameDatas (frames, pRenderer))) =
     length frames + length frameDatas"
  by (induction frameDatas arbitrary: frames pRenderer)
     (simp_all add: createFrameDrawData_def)

lemma appendFrames_images:
  "map (\<lambda>frame. tex_image (mImage frame)) (fst (appendFrames frameDatas (frames, pRenderer))) =
     map (\<lambda>frame. tex_image (mImage frame)) frames @ map mFrameImage frameDatas"
  by (induction frameDatas arbitrary: frames pRenderer)
     (simp_all add: createFrameDrawData_def)

lemma appendFrames_offsets:
  "map SpriteFrame.mDrawOffset (fst (appendFrames frameDatas (frames, pRenderer))) =
     map SpriteFrame.mDrawOffset frames @ map Frame.mDrawOffset frameDatas"
  by (induction frameDatas arbitrary: frames pRenderer)
     (simp_all add: createFrameDrawData_def)

lemma assembleParts_framesToRender:
  "framesToRender (assembleParts actorParts a) =
     framesToRender a @
       (if actorParts = [] then []
        else lastFrameCount a #
             map (\<lambda>actorData. int (length (ActorData.mFrames actorData))) (butlast actorParts))"
  by (induction actorParts arbitrary: a) (simp_all split: prod.splits)

lemma assembleParts_lastDrawOrder:
  "lastDrawOrder (assembleParts actorParts a) =
     (if actorParts = [] then lastDrawOrder a else mDrawIndex (last actorParts))"
  by (induction actorParts arbitrary: a) (simp_all split: prod.splits)

lemma assembleParts_images:
  "map (\<lambda>frame. tex_image (mImage frame)) (drawFrames (assembleParts actorParts a)) =
     map (\<lambda>frame. tex_image (mImage frame)) (drawFrames a) @
     map mFrameImage (concat (map ActorData.mFrames actorParts))"
proof (induction actorParts arbitrary: a)
  case Nil
  show ?case by simp
next
  case (Cons actorData rest)
  obtain frames pRenderer where
    app: "appendFrames (ActorData.mFrames actorData) (drawFrames a, renderer a) =
            (frames, pRenderer)"
    by (cases "appendFrames (ActorData.mFrames actorData) (drawFrames a, renderer a)")
  have "map (\<lambda>frame. tex_image (mImage frame)) frames =
          map (\<lambda>frame. tex_image (mImage frame)) (drawFrames a) @
          map mFrameImage (ActorData.mFrames actorData)"
    using appendFrames_images [of "ActorData.mFrames actorData" "drawFrames a" "renderer a"]
    by (simp add: app)
  then show ?case by (simp add: app Cons.IH)
qed

lemma assembleParts_offsets:
  "map SpriteFrame.mDrawOffset (drawFrames (assembleParts actorParts a)) =
     map SpriteFrame.mDrawOffset (drawFrames a) @
     map Frame.mDrawOffset (concat (map ActorData.mFrames actorParts))"
proof (induction actorParts arbitrary: a)
  case Nil
  show ?case by simp
next
  case (Cons actorData rest)
  obtain frames pRenderer where
    app: "appendFrames (ActorData.mFrames actorData) (drawFrames a, renderer a) =
            (frames, pRenderer)"
    by (cases "appendFrames (ActorData.mFrames actorData) (drawFrames a, renderer a)")
  have "map SpriteFrame.mDrawOffset frames =
          map SpriteFrame.mDrawOffset (drawFrames a) @
          map Frame.mDrawOffset (ActorData.mFrames actorData)"
    using appendFrames_offsets [of "ActorData.mFrames actorData" "drawFrames a" "renderer a"]
    by (simp add: app)
  then show ?case by (simp add: app Cons.IH)
qed

lemma assembleParts_length:
  "length (drawFrames (assembleParts actorParts a)) =
     length (drawFrames a) + length (concat (map ActorData.mFrames actorParts))"
  using arg_cong [OF assembleParts_offsets [of actorParts a], of length] by simp

lemma recordedPartBoundaries_eq:
  "recordedPartBoundaries actorParts =
     (if actorParts = [] then []
      else 0 # map (\<lambda>actorData. int (length (ActorData.mFrames actorData)))
                 (butlast actorParts))"
  by (simp add: recordedPartBoundaries_def assembleParts_framesToRender)

lemma recordedPartBoundaries_renderer:
  "framesToRender
     (assembleParts actorParts
        \<lparr>drawFrames = [], lastDrawOrder = 0, lastFrameCount = 0,
         framesToRender = [], renderer = pRenderer\<rparr>) =
   recordedPartBoundaries actorParts"
  by (simp add: recordedPartBoundaries_def assembleParts_framesToRender)

lemma loadParts_length:
  "loadParts package partIds = Inr actorParts \<Longrightarrow> length actorParts = length partIds"
  by (induction partIds arbitrary: actorParts)
     (auto simp: andThen_eq_Inr split: option.splits)

lemma loadParts_nth:
  "loadParts package partIds = Inr actorParts \<Longrightarrow> i < length partIds
    \<Longrightarrow> package (partIds ! i) = Some (actorParts ! i)"
proof (induction partIds arbitrary: actorParts i)
  case Nil
  then show ?case by simp
next
  case (Cons partId rest)
  then show ?case
    by (cases i) (auto simp: andThen_eq_Inr split: option.splits)
qed

text \<open>The boundaries recorded for up to two parts are the starts of the parts; from
  the third part on they are not, unless the parts before have no frames.\<close>

lemma recordedPartBoundaries_two_parts:
  "length actorParts \<le> 2 \<Longrightarrow> recordedPartBoundaries actorParts = partStartIndices 0 actorParts"
proof (cases actorParts)
  case Nil
  then show ?thesis by (simp add: recordedPartBoundaries_eq)
next
  case (Cons first rest)
  assume "length actorParts \<le> 2"
  with Cons show ?thesis
    by (cases rest) (simp_all add: recordedPartBoundaries_eq)
qed

subsection \<open>The tweak pass\<close>

declare playerLoop.simps [simp del]
declare radarLoop.simps [simp del]



lemma radarLoop_length: "length (radarLoop i frames) = length frames"
proof (induction i frames rule: radarLoop.induct)
  case (1 i frames)
  then show ?case by (subst radarLoop.simps) simp
qed

lemma insertShipFrames_in_range:
  assumes "8 \<le> length frames" and "2 < length actorParts"
    and "2 \<le> length (ActorData.mFrames (actorParts ! 2))"
  shows "insertShipFrames frames actorParts pRenderer =
     Inr (take 8 frames @
          [addToDrawOffsetX 1
             (fst (createFrameDrawData (ActorData.mFrames (actorParts ! 2) ! 0) pRenderer)),
           addToDrawOffsetX 1
             (fst (createFrameDrawData (ActorData.mFrames (actorParts ! 2) ! 1)
                (Suc pRenderer)))] @
          drop 8 frames,
          pRenderer + 2)"
proof -
  have "0 < length (ActorData.mFrames (actorParts ! 2))"
    "1 < length (ActorData.mFrames (actorParts ! 2))"
    using assms(3) by auto
  then show ?thesis
    using assms(1,2)
    by (simp add: insertShipFrames_def access_defs createFrameDrawData_def
        nth_append list_update_append min_def)
qed





lemma applyTweaks_dukesShip:
  "actorId = Dukes_ship_LEFT \<or> actorId = Dukes_ship_RIGHT \<or>
   actorId = Dukes_ship_after_exiting_LEFT \<or> actorId = Dukes_ship_after_exiting_RIGHT
    \<Longrightarrow> applyTweaks frames actorId actorParts pRenderer =
        insertShipFrames frames actorParts pRenderer"
  by (elim disjE; cases "insertShipFrames frames actorParts pRenderer";
      simp add: applyTweaks_def split: prod.splits)

lemma applyTweaks_bombDroppingSpaceship:
  "applyTweaks frames Bomb_dropping_spaceship actorParts pRenderer =
     andThen (modifyAt 3 (addToDrawOffset 2 0) frames)
       (\<lambda>frames. Inr (take 4 frames, pRenderer))"
  by (simp add: applyTweaks_def)




subsection \<open>The caching assembler\<close>

lemma createOrFindData_cached:
  "mSpriteDataCache factory mainId = Some data
    \<Longrightarrow> createOrFindData K factory mainId = Inr (data, factory)"
  by (simp add: createOrFindData_def)

lemma createOrFindData_uncached:
  assumes "mSpriteDataCache factory mainId = None"
    and "loadParts (mpSpritePackage factory) (actorIDListForActor mainId) = Inr actorParts"
    and "a = assembleParts actorParts
           \<lparr>drawFrames = [], lastDrawOrder = 0, lastFrameCount = 0,
            framesToRender = [], renderer = mpRenderer factory\<rparr>"
    and "applyTweaks (drawFrames a) mainId actorParts (renderer a) = Inr (frames, pRenderer)"
    and "data =
           \<lparr>mDrawData =
              \<lparr>mFrames = frames,
               mOrientationOffset = orientationOffsetForActor mainId,
               mVirtualToRealFrameMap = frameMapForActor mainId,
               mDrawOrder = adjustedDrawOrder K mainId (lastDrawOrder a)\<rparr>,
            mInitialFramesToRender = framesToRender a\<rparr>"
  shows "createOrFindData K factory mainId =
     Inr (data,
          factory\<lparr>mpRenderer := pRenderer,
            mSpriteDataCache := (mSpriteDataCache factory)(mainId \<mapsto> data)\<rparr>)"
  using assms by (simp add: createOrFindData_def Let_def)

lemma createOrFindData_uncachedE:
  assumes "createOrFindData K factory mainId = Inr (data, factory')"
    and "mSpriteDataCache factory mainId = None"
  obtains actorParts frames pRenderer where
    "loadParts (mpSpritePackage factory) (actorIDListForActor mainId) = Inr actorParts"
    "mInitialFramesToRender data = recordedPartBoundaries actorParts"
    "mDrawOrder (mDrawData data) =
       adjustedDrawOrder K mainId
         (if actorParts = [] then 0 else mDrawIndex (last actorParts))"
    "factory' = factory\<lparr>mpRenderer := pRenderer,
        mSpriteDataCache := (mSpriteDataCache factory)(mainId \<mapsto> data)\<rparr>"
  using assms
  by (auto simp: createOrFindData_def Let_def andThen_eq_Inr
      recordedPartBoundaries_renderer assembleParts_lastDrawOrder)

lemma createOrFindData_stores:
  "createOrFindData K factory mainId = Inr (data, factory')
    \<Longrightarrow> mSpriteDataCache factory' mainId = Some data"
  by (cases "mSpriteDataCache factory mainId")
     (auto simp: createOrFindData_def Let_def andThen_eq_Inr)

lemma createOrFindData_keeps:
  "createOrFindData K factory mainId = Inr (data, factory')
    \<Longrightarrow> mSpriteDataCache factory otherId = Some entry
    \<Longrightarrow> mSpriteDataCache factory' otherId = Some entry"
  by (cases "mSpriteDataCache factory mainId")
     (auto simp: createOrFindData_def Let_def andThen_eq_Inr)

lemma createOrFindData_package:
  "createOrFindData K factory mainId = Inr (data, factory')
    \<Longrightarrow> mpSpritePackage factory' = mpSpritePackage factory"
  by (cases "mSpriteDataCache factory mainId")
     (auto simp: createOrFindData_def Let_def andThen_eq_Inr)

lemma createSprite_Inr:
  "createSprite K factory actorId = Inr (sprite, factory') \<longleftrightarrow>
     (\<exists>data. createOrFindData K factory actorId = Inr (data, factory') \<and>
        sprite = configureSprite K
          \<lparr>mpDrawData = actorId, mFramesToRender = mInitialFramesToRender data\<rparr> actorId)"
  by (auto simp: createSprite_def andThen_eq_Inr)

lemma actorFrameRect_Inr:
  "actorFrameRect K factory actorId frame = Inr (rect, factory')
    \<Longrightarrow> \<exists>data. createOrFindData K factory actorId = Inr (data, factory')"
  by (auto simp: actorFrameRect_def andThen_eq_Inr)

text \<open>
  Claim C7. A call of \<open>createOrFindData\<close> that returns leaves its result in the
  cache; the next call for the same identifier returns that entry and leaves the
  factory as it is (no texture is created), and does so even with a package that
  cannot supply anything (no part is loaded); entries stay in the cache over calls
  for other identifiers. Two calls of \<open>createSprite\<close> for one identifier return the
  same sprite, which points to the cache entry of the identifier.
\<close>

theorem createOrFindData_memoizes:
  "(createOrFindData K factory actorId = Inr (data, factory1) \<longrightarrow>
      mSpriteDataCache factory1 actorId = Some data \<and>
      createOrFindData K factory1 actorId = Inr (data, factory1) \<and>
      createOrFindData K (factory1\<lparr>mpSpritePackage := Map.empty\<rparr>) actorId =
        Inr (data, factory1\<lparr>mpSpritePackage := Map.empty\<rparr>)) \<and>
   (mSpriteDataCache factory actorId = Some data \<and>
    createOrFindData K factory otherId = Inr (otherData, factory2) \<longrightarrow>
      mSpriteDataCache factory2 actorId = Some data) \<and>
   (createSprite K factory actorId = Inr (sprite, factory1) \<longrightarrow>
      createSprite K factory1 actorId = Inr (sprite, factory1) \<and>
      mpDrawData sprite = actorId \<and>
      mSpriteDataCache factory1 actorId \<noteq> None)"
proof (intro conjI impI)
  assume first: "createOrFindData K factory actorId = Inr (data, factory1)"
  then show stored: "mSpriteDataCache factory1 actorId = Some data"
    by (rule createOrFindData_stores)
  then show "createOrFindData K factory1 actorId = Inr (data, factory1)"
    by (rule createOrFindData_cached)
  from stored
  show "createOrFindData K (factory1\<lparr>mpSpritePackage := Map.empty\<rparr>) actorId =
      Inr (data, factory1\<lparr>mpSpritePackage := Map.empty\<rparr>)"
    by (simp add: createOrFindData_cached)
next
  assume "mSpriteDataCache factory actorId = Some data \<and>
    createOrFindData K factory otherId = Inr (otherData, factory2)"
  then show "mSpriteDataCache factory2 actorId = Some data"
    using createOrFindData_keeps by blast
next
  assume first: "createSprite K factory actorId = Inr (sprite, factory1)"
  then obtain entry where
    entry: "createOrFindData K factory actorId = Inr (entry, factory1)" and
    sprite: "sprite = configureSprite K
      \<lparr>mpDrawData = actorId, mFramesToRender = mInitialFramesToRender entry\<rparr> actorId"
    by (auto simp: createSprite_Inr)
  have stored: "mSpriteDataCache factory1 actorId = Some entry"
    using entry by (rule createOrFindData_stores)
  then have "createOrFindData K factory1 actorId = Inr (entry, factory1)"
    by (rule createOrFindData_cached)
  with sprite show "createSprite K factory1 actorId = Inr (sprite, factory1)"
    by (simp add: createSprite_def)
  show "mpDrawData sprite = actorId"
    unfolding sprite by (simp add: configureSprite_def)
  show "mSpriteDataCache factory1 actorId \<noteq> None"
    using stored by simp
qed

lemmas run_defs =
  createOrFindData_def createSprite_def actorFrameRect_def assembledData_def
  actorIDListForActor_def orientationOffsetForActor_def frameMapForActor_def
  adjustedDrawOrder_def scale_def playerProjectileActors_def muzzleFlashActors_def
  effectActors_def scoreNumberActors_def applyTweaks_def insertShipFrames_def
  createFrameDrawData_def addToDrawOffset_def addToDrawOffsetX_def setDrawOffsetX_def
  wrapInt_def
  virtualToRealFrame_def extents_def configureSprite_def Let_def

theorem createOrFindData_memoizes_witness:
  "\<exists>sprite factory1.
     createSprite exampleConstants exampleFactory Rocket_elevator = Inr (sprite, factory1) \<and>
     createSprite exampleConstants factory1 Rocket_elevator = Inr (sprite, factory1) \<and>
     mFramesToRender sprite = [5, 0] \<and> mpRenderer factory1 = 2"
proof -
  obtain sprite factory1 where
    first: "createSprite exampleConstants exampleFactory Rocket_elevator =
      Inr (sprite, factory1)"
    and "mFramesToRender sprite = [5, 0]" "mpRenderer factory1 = 2"
    by (simp add: example_defs run_defs access_defs)
  moreover have "createSprite exampleConstants factory1 Rocket_elevator =
      Inr (sprite, factory1)"
    using createOrFindData_memoizes
      [of exampleConstants exampleFactory Rocket_elevator _ factory1 _ _ _ sprite] first
    by simp
  ultimately show ?thesis by blast
qed

subsection \<open>Default visible frames\<close>

lemma defaultVisibleFrames_keys:
  "map fst (defaultVisibleFrames K) =
     [Hoverbot, Bomb_dropping_spaceship, Green_slime_blob, Eyeball_thrower_LEFT,
      Sentry_robot_generator, Missile_intact, Metal_grabber_claw, Spider, Blue_guard_LEFT,
      BOSS_Episode_1, BOSS_Episode_3, BOSS_Episode_4, Rocket_elevator,
      Blue_guard_using_a_terminal, Lava_fountain, Radar_computer_terminal,
      Watchbot_container, Watchbot_container_carrier, Super_force_field_LEFT,
      Big_green_cat_LEFT, Big_green_cat_RIGHT, Spiked_green_creature_LEFT,
      Spiked_green_creature_RIGHT, Duke_LEFT, Duke_RIGHT, Dukes_ship_LEFT,
      Dukes_ship_RIGHT, Dukes_ship_after_exiting_LEFT, Dukes_ship_after_exiting_RIGHT]"
  by (simp add: defaultVisibleFrames_def)

lemma defaultVisibleFrames_distinct: "distinct (map fst (defaultVisibleFrames K))"
  by (simp add: defaultVisibleFrames_keys)

lemma configureSprite_listed:
  "(actorId, frames) \<in> set (defaultVisibleFrames K)
    \<Longrightarrow> configureSprite K sprite actorId = sprite\<lparr>mFramesToRender := frames\<rparr>"
  unfolding defaultVisibleFrames_def set_simps insert_iff empty_iff prod.inject
  by (elim disjE conjE; simp add: configureSprite_def)

lemma configureSprite_unlisted:
  "actorId \<notin> fst ` set (defaultVisibleFrames K) \<Longrightarrow> configureSprite K sprite actorId = sprite"
proof -
  assume "actorId \<notin> fst ` set (defaultVisibleFrames K)"
  then have "actorId \<notin> set (map fst (defaultVisibleFrames K))" by simp
  then show ?thesis
    unfolding defaultVisibleFrames_keys by (simp add: configureSprite_def)
qed

text \<open>
  Claim C9. For an identifier of the table of default visible frames, the sprite that
  \<open>createSprite\<close> returns has the list of the table as its frames to render, in the
  order of the table; the table has one list per identifier; the list of the third boss
  starts with the skip marker \<open>IGNORE_RENDER_SLOT\<close>; the list of the lava fountain,
  which a custom render function draws, is empty.
\<close>

theorem createSprite_default_frames:
  "((actorId, frames) \<in> set (defaultVisibleFrames K) \<and>
    createSprite K factory actorId = Inr (sprite, factory')
      \<longrightarrow> mFramesToRender sprite = frames) \<and>
   distinct (map fst (defaultVisibleFrames K)) \<and>
   (BOSS_Episode_1, [0, 2]) \<in> set (defaultVisibleFrames K) \<and>
   (BOSS_Episode_3, [IGNORE_RENDER_SLOT K, 1, 0]) \<in> set (defaultVisibleFrames K) \<and>
   (Lava_fountain, []) \<in> set (defaultVisibleFrames K)"
proof (intro conjI impI)
  assume "(actorId, frames) \<in> set (defaultVisibleFrames K) \<and>
    createSprite K factory actorId = Inr (sprite, factory')"
  then show "mFramesToRender sprite = frames"
    by (auto simp: createSprite_Inr configureSprite_listed)
qed (simp_all add: defaultVisibleFrames_distinct, simp_all add: defaultVisibleFrames_def)

theorem createSprite_default_frames_witness:
  "\<exists>boss factory1 fountain factory2.
     createSprite exampleConstants exampleFactory BOSS_Episode_3 = Inr (boss, factory1) \<and>
     mFramesToRender boss = [- 1, 1, 0] \<and>
     createSprite exampleConstants factory1 Lava_fountain = Inr (fountain, factory2) \<and>
     mFramesToRender fountain = []"
proof -
  obtain boss factory1 where
    boss: "createSprite exampleConstants exampleFactory BOSS_Episode_3 = Inr (boss, factory1)"
    and factory1: "mSpriteDataCache factory1 Lava_fountain = None"
      "mpSpritePackage factory1 = examplePackage" "mpRenderer factory1 = 2"
    by (simp add: example_defs run_defs access_defs)
  obtain fountain factory2 where
    fountain: "createSprite exampleConstants factory1 Lava_fountain = Inr (fountain, factory2)"
    using factory1 by (simp add: example_defs run_defs access_defs)
  have "mFramesToRender boss = [IGNORE_RENDER_SLOT exampleConstants, 1, 0]"
    using createSprite_default_frames
      [of BOSS_Episode_3 "[IGNORE_RENDER_SLOT exampleConstants, 1, 0]" exampleConstants
        exampleFactory boss factory1] boss
    by simp
  moreover have "mFramesToRender fountain = []"
    using createSprite_default_frames
      [of Lava_fountain "[]" exampleConstants factory1 fountain factory2] fountain
    by simp
  ultimately show ?thesis
    using boss fountain by (auto simp: exampleConstants_def)
qed

subsection \<open>The recorded part boundaries\<close>

lemma cacheRecordsAssembly_new: "cacheRecordsAssembly (newSpriteFactory pRenderer package)"
  by (simp add: cacheRecordsAssembly_def newSpriteFactory_def)

lemma cacheRecordsAssembly_step:
  assumes inv: "cacheRecordsAssembly factory"
    and call: "createOrFindData K factory mainId = Inr (data, factory')"
  shows "cacheRecordsAssembly factory'"
proof (cases "mSpriteDataCache factory mainId")
  case (Some entry)
  then have "factory' = factory"
    using call by (simp add: createOrFindData_cached)
  with inv show ?thesis by simp
next
  case None
  from call None obtain actorParts frames pRenderer where
    parts: "loadParts (mpSpritePackage factory) (actorIDListForActor mainId) = Inr actorParts"
    and recorded: "mInitialFramesToRender data = recordedPartBoundaries actorParts"
    and factory': "factory' = factory\<lparr>mpRenderer := pRenderer,
        mSpriteDataCache := (mSpriteDataCache factory)(mainId \<mapsto> data)\<rparr>"
    by (rule createOrFindData_uncachedE)
  show ?thesis
    unfolding cacheRecordsAssembly_def
  proof (intro allI impI)
    fix actorId entry
    assume entry: "mSpriteDataCache factory' actorId = Some entry"
    show "\<exists>actorParts.
        loadParts (mpSpritePackage factory') (actorIDListForActor actorId) = Inr actorParts \<and>
        mInitialFramesToRender entry = recordedPartBoundaries actorParts"
    proof (cases "actorId = mainId")
      case True
      with entry factory' have "entry = data" by simp
      with True parts recorded factory' show ?thesis by simp
    next
      case False
      with entry factory' have "mSpriteDataCache factory actorId = Some entry" by simp
      with inv obtain otherParts where
        "loadParts (mpSpritePackage factory) (actorIDListForActor actorId) = Inr otherParts"
        "mInitialFramesToRender entry = recordedPartBoundaries otherParts"
        unfolding cacheRecordsAssembly_def by blast
      with factory' show ?thesis by simp
    qed
  qed
qed

lemma reachable_cacheRecordsAssembly: "reachable K factory \<Longrightarrow> cacheRecordsAssembly factory"
proof (induction rule: reachable.induct)
  case (constructed pRenderer pSpritePackage)
  show ?case by (rule cacheRecordsAssembly_new)
next
  case (afterCreateSprite factory actorId sprite factory')
  then show ?case
    by (auto simp: createSprite_Inr intro: cacheRecordsAssembly_step)
next
  case (afterActorFrameRect factory actorId frame rect factory')
  then show ?case
    by (auto dest!: actorFrameRect_Inr intro: cacheRecordsAssembly_step)
qed

text \<open>
  For an identifier that is not in the table of default visible frames, in every state
  of the factory, the sprite that \<open>createSprite\<close> returns has as its frames to render
  the list that the loop of the assembly recorded for the parts of the identifier,
  which is the list kept in the cache entry. The list has one entry per part and starts
  with 0. Whether its entries are the starts of the parts is another matter: see
  \<open>recordedPartBoundaries_two_parts\<close> and the properties after this one.
\<close>

lemma createSprite_unlisted_frames:
  assumes "reachable K factory"
    and "actorId \<notin> fst ` set (defaultVisibleFrames K)"
    and "createSprite K factory actorId = Inr (sprite, factory')"
  shows "\<exists>data actorParts.
     mSpriteDataCache factory' actorId = Some data \<and>
     loadParts (mpSpritePackage factory) (actorIDListForActor actorId) = Inr actorParts \<and>
     mFramesToRender sprite = mInitialFramesToRender data \<and>
     mFramesToRender sprite = recordedPartBoundaries actorParts \<and>
     length (mFramesToRender sprite) = length (actorIDListForActor actorId) \<and>
     hd (mFramesToRender sprite) = 0 \<and>
     (length (actorIDListForActor actorId) = 1 \<longrightarrow> mFramesToRender sprite = [0])"
proof -
  from assms(3) obtain data where
    call: "createOrFindData K factory actorId = Inr (data, factory')" and
    sprite: "sprite = configureSprite K
      \<lparr>mpDrawData = actorId, mFramesToRender = mInitialFramesToRender data\<rparr> actorId"
    by (auto simp: createSprite_Inr)
  have frames: "mFramesToRender sprite = mInitialFramesToRender data"
    unfolding sprite by (simp add: configureSprite_unlisted [OF assms(2)])
  have stored: "mSpriteDataCache factory' actorId = Some data"
    using call by (rule createOrFindData_stores)
  have "cacheRecordsAssembly factory'"
    using reachable_cacheRecordsAssembly [OF assms(1)] call
    by (rule cacheRecordsAssembly_step)
  with stored obtain actorParts where
    parts': "loadParts (mpSpritePackage factory') (actorIDListForActor actorId) =
      Inr actorParts" and
    recorded: "mInitialFramesToRender data = recordedPartBoundaries actorParts"
    unfolding cacheRecordsAssembly_def by blast
  have parts: "loadParts (mpSpritePackage factory) (actorIDListForActor actorId) =
      Inr actorParts"
    using parts' createOrFindData_package [OF call] by simp
  have count: "length actorParts = length (actorIDListForActor actorId)"
    using parts by (rule loadParts_length)
  have nonempty: "actorIDListForActor actorId \<noteq> []"
    by (simp add: actorIDListForActor_def)
  with count have "actorParts \<noteq> []" by auto
  then have shape: "recordedPartBoundaries actorParts =
      0 # map (\<lambda>actorData. int (length (ActorData.mFrames actorData))) (butlast actorParts)"
    by (simp add: recordedPartBoundaries_eq)
  have "length (recordedPartBoundaries actorParts) = length (actorIDListForActor actorId)"
    using \<open>actorParts \<noteq> []\<close> count [symmetric]
    by (cases actorParts) (simp_all add: recordedPartBoundaries_eq)
  moreover have "length (actorIDListForActor actorId) = 1
      \<longrightarrow> recordedPartBoundaries actorParts = [0]"
    using count [symmetric] by (cases actorParts) (auto simp: recordedPartBoundaries_eq)
  ultimately show ?thesis
    using stored parts frames recorded shape by simp
qed

lemma createSprite_unlisted_frames_example:
  "\<exists>sprite factory'.
     createSprite exampleConstants exampleFactory Blowing_fan = Inr (sprite, factory') \<and>
     mFramesToRender sprite = [0, 2] \<and>
     length (mFramesToRender sprite) = length (actorIDListForActor Blowing_fan)"
proof -
  have start: "reachable exampleConstants exampleFactory"
    unfolding exampleFactory_def by (rule reachable.constructed)
  have "Blowing_fan \<notin> set (map fst (defaultVisibleFrames exampleConstants))"
    unfolding defaultVisibleFrames_keys by simp
  then have unlisted: "Blowing_fan \<notin> fst ` set (defaultVisibleFrames exampleConstants)"
    by simp
  obtain sprite factory' where
    call: "createSprite exampleConstants exampleFactory Blowing_fan = Inr (sprite, factory')"
    and frames: "mFramesToRender sprite = [0, 2]"
    by (simp add: example_defs run_defs access_defs)
  from createSprite_unlisted_frames [OF start unlisted call]
  have "length (mFramesToRender sprite) = length (actorIDListForActor Blowing_fan)"
    by blast
  with call frames show ?thesis by blast
qed

text \<open>For an identifier of one or two parts the recorded list is the list of the
  starts of the parts, so its sprite renders the first frame of every part.\<close>

lemma createSprite_unlisted_part_starts:
  assumes "reachable K factory"
    and "actorId \<notin> fst ` set (defaultVisibleFrames K)"
    and "createSprite K factory actorId = Inr (sprite, factory')"
    and "length (actorIDListForActor actorId) \<le> 2"
  shows "\<exists>actorParts.
     loadParts (mpSpritePackage factory) (actorIDListForActor actorId) = Inr actorParts \<and>
     mFramesToRender sprite = partStartIndices 0 actorParts"
proof -
  from createSprite_unlisted_frames [OF assms(1-3)] obtain actorParts where
    parts: "loadParts (mpSpritePackage factory) (actorIDListForActor actorId) =
      Inr actorParts" and
    frames: "mFramesToRender sprite = recordedPartBoundaries actorParts"
    by blast
  have "length actorParts \<le> 2"
    using loadParts_length [OF parts] assms(4) by simp
  then have "recordedPartBoundaries actorParts = partStartIndices 0 actorParts"
    by (rule recordedPartBoundaries_two_parts)
  with parts frames show ?thesis by auto
qed

text \<open>
  Claim C10 does not hold of the code for an identifier of three or more parts: the
  list the sprite gets is the list recorded during assembly, with one entry per part,
  but from the third part on its entries are not the boundaries of the parts (the
  slip of claim C2), so the sprite does not render one frame of each part. The fourth
  messenger drone is not in the table of default visible frames and has eight parts;
  with two frames per part its entry has 16 frames and its parts start at 0, 2, 4, 6,
  8, 10, 12, 14, yet its sprite renders the frames 0, 2, 2, 2, 2, 2, 2, 2: frames of the
  first two parts only. For the blowing fan (two parts) and the snake (one part) the
  sprite does render the first frame of every part.
\<close>

theorem unlisted_sprite_misses_parts:
  "Messenger_drone_4 \<notin> set (map fst (defaultVisibleFrames exampleConstants)) \<and>
   map_sum id (\<lambda>(sprite, factory). mFramesToRender sprite)
     (createSprite exampleConstants exampleFactory Messenger_drone_4) =
     Inr [0, 2, 2, 2, 2, 2, 2, 2] \<and>
   map_sum id (partStartIndices 0)
     (loadParts examplePackage (actorIDListForActor Messenger_drone_4)) =
     Inr [0, 2, 4, 6, 8, 10, 12, 14] \<and>
   map_option (\<lambda>data. length (SpriteDrawData.mFrames (mDrawData data)))
     (assembledData exampleConstants exampleFactory Messenger_drone_4) = Some 16 \<and>
   map_sum id (\<lambda>(sprite, factory). mFramesToRender sprite)
     (createSprite exampleConstants exampleFactory Blowing_fan) = Inr [0, 2] \<and>
   map_sum id (partStartIndices 0)
     (loadParts examplePackage (actorIDListForActor Blowing_fan)) = Inr [0, 2] \<and>
   map_sum id (\<lambda>(sprite, factory). mFramesToRender sprite)
     (createSprite exampleConstants exampleFactory Snake) = Inr [0]"
proof (intro conjI)
  show "Messenger_drone_4 \<notin> set (map fst (defaultVisibleFrames exampleConstants))"
    unfolding defaultVisibleFrames_keys by simp
qed (simp_all add: example_defs run_defs access_defs)

subsection \<open>Truncation\<close>

text \<open>
  Claim C8. The tweak of the bomb-dropping spaceship removes all frames after index 3:
  whenever the concatenated sequence has at least four frames, four frames are left,
  both in \<open>applyTweaks\<close> and in the cache entry that \<open>createOrFindData\<close> builds from
  the spaceship and the napalm bomb.
\<close>

theorem bombDroppingSpaceship_truncated:
  "(4 \<le> length frames \<longrightarrow>
      (\<exists>result.
         applyTweaks frames Bomb_dropping_spaceship actorParts pRenderer =
           Inr (result, pRenderer) \<and>
         result = take 4 (frames[3 := addToDrawOffset 2 0 (frames ! 3)]) \<and>
         length result = 4)) \<and>
   (mSpriteDataCache factory Bomb_dropping_spaceship = None \<and>
    mpSpritePackage factory Bomb_dropping_spaceship = Some spaceship \<and>
    mpSpritePackage factory Napalm_bomb = Some bomb \<and>
    4 \<le> length (ActorData.mFrames spaceship) + length (ActorData.mFrames bomb) \<longrightarrow>
      (\<exists>data factory'.
         createOrFindData K factory Bomb_dropping_spaceship = Inr (data, factory') \<and>
         length (SpriteDrawData.mFrames (mDrawData data)) = 4))"
proof (intro conjI impI)
  assume "4 \<le> length frames"
  then show "\<exists>result.
      applyTweaks frames Bomb_dropping_spaceship actorParts pRenderer =
        Inr (result, pRenderer) \<and>
      result = take 4 (frames[3 := addToDrawOffset 2 0 (frames ! 3)]) \<and>
      length result = 4"
    by (simp add: applyTweaks_bombDroppingSpaceship modifyAt_def)
next
  assume given: "mSpriteDataCache factory Bomb_dropping_spaceship = None \<and>
    mpSpritePackage factory Bomb_dropping_spaceship = Some spaceship \<and>
    mpSpritePackage factory Napalm_bomb = Some bomb \<and>
    4 \<le> length (ActorData.mFrames spaceship) + length (ActorData.mFrames bomb)"
  define a where "a = assembleParts [spaceship, bomb]
    \<lparr>drawFrames = [], lastDrawOrder = 0, lastFrameCount = 0,
     framesToRender = [], renderer = mpRenderer factory\<rparr>"
  have parts: "loadParts (mpSpritePackage factory)
      (actorIDListForActor Bomb_dropping_spaceship) = Inr [spaceship, bomb]"
    using given by (simp add: actorIDListForActor_def)
  have "length (drawFrames a) =
      length (ActorData.mFrames spaceship) + length (ActorData.mFrames bomb)"
    by (simp only: a_def assembleParts_length) simp
  with given have enough: "4 \<le> length (drawFrames a)" by simp
  define result where
    "result = take 4 ((drawFrames a)[3 := addToDrawOffset 2 0 (drawFrames a ! 3)])"
  have tweak: "applyTweaks (drawFrames a) Bomb_dropping_spaceship [spaceship, bomb]
      (renderer a) = Inr (result, renderer a)"
    using enough by (simp add: applyTweaks_bombDroppingSpaceship modifyAt_def result_def)
  have "length result = 4"
    using enough by (simp add: result_def)
  with createOrFindData_uncached [OF _ parts a_def tweak refl, of K] given
  show "\<exists>data factory'.
      createOrFindData K factory Bomb_dropping_spaceship = Inr (data, factory') \<and>
      length (SpriteDrawData.mFrames (mDrawData data)) = 4"
    by simp
qed

theorem bombDroppingSpaceship_truncated_witness:
  "\<exists>data factory'.
     createOrFindData exampleConstants exampleFactory Bomb_dropping_spaceship =
       Inr (data, factory') \<and>
     length (SpriteDrawData.mFrames (mDrawData data)) = 4 \<and>
     length (ActorData.mFrames (exampleActor 5 [10, 11, 12, 13, 14])) = 5"
  using bombDroppingSpaceship_truncated
    [of "[]" "[]" 0 exampleFactory "exampleActor 5 [10, 11, 12, 13, 14]"
      "exampleActor 5 [20, 21, 22]" exampleConstants]
  by (simp add: example_defs)

subsection \<open>The frames of Duke's ship\<close>

lemma map_eq_nth:
  "map f xs = map g ys \<Longrightarrow> i < length xs \<Longrightarrow> f (xs ! i) = g (ys ! i)"
  by (metis length_map nth_map)

text \<open>
  Claim C4, as the code has it. With the three parts of Duke's ship supplying 2, 2 and
  6 frames, the assembled sequence has 12 frames after the tweak. The frames at
  positions 8 and 9 are created from the first two frames of the third part, the
  exhaust flames, which are the frames at positions 4 and 5 (not 2 and 3): they have
  the images of positions 4 and 5, and draw offsets that are those of positions 4 and
  5 moved by 1 in X (as an \<open>int\<close> sum: exactly 1 greater unless the X offset is the
  largest \<open>int\<close>). Positions 4 and 5 keep the draw offsets of their source frames.
\<close>

theorem dukesShip_duplicated_frames:
  assumes ship: "actorId = Dukes_ship_LEFT \<or> actorId = Dukes_ship_RIGHT \<or>
      actorId = Dukes_ship_after_exiting_LEFT \<or> actorId = Dukes_ship_after_exiting_RIGHT"
    and uncached: "mSpriteDataCache factory actorId = None"
    and left: "mpSpritePackage factory Dukes_ship_LEFT = Some left"
    and right: "mpSpritePackage factory Dukes_ship_RIGHT = Some right"
    and flames: "mpSpritePackage factory Dukes_ship_exhaust_flames = Some flames"
    and counts: "length (ActorData.mFrames left) = 2" "length (ActorData.mFrames right) = 2"
      "length (ActorData.mFrames flames) = 6"
  shows "\<exists>data factory' frames.
     createOrFindData K factory actorId = Inr (data, factory') \<and>
     frames = SpriteDrawData.mFrames (mDrawData data) \<and>
     length frames = 12 \<and>
     tex_image (mImage (frames ! 8)) = tex_image (mImage (frames ! 4)) \<and>
     tex_image (mImage (frames ! 9)) = tex_image (mImage (frames ! 5)) \<and>
     tex_image (mImage (frames ! 4)) = mFrameImage (ActorData.mFrames flames ! 0) \<and>
     tex_image (mImage (frames ! 5)) = mFrameImage (ActorData.mFrames flames ! 1) \<and>
     tex_image (mImage (frames ! 2)) = mFrameImage (ActorData.mFrames right ! 0) \<and>
     tex_image (mImage (frames ! 3)) = mFrameImage (ActorData.mFrames right ! 1) \<and>
     SpriteFrame.mDrawOffset (frames ! 4) = Frame.mDrawOffset (ActorData.mFrames flames ! 0) \<and>
     SpriteFrame.mDrawOffset (frames ! 5) = Frame.mDrawOffset (ActorData.mFrames flames ! 1) \<and>
     vec_x (SpriteFrame.mDrawOffset (frames ! 8)) =
       wrapInt (vec_x (SpriteFrame.mDrawOffset (frames ! 4)) + 1) \<and>
     vec_x (SpriteFrame.mDrawOffset (frames ! 9)) =
       wrapInt (vec_x (SpriteFrame.mDrawOffset (frames ! 5)) + 1) \<and>
     (- 2147483648 \<le> vec_x (SpriteFrame.mDrawOffset (frames ! 4)) \<and>
      vec_x (SpriteFrame.mDrawOffset (frames ! 4)) < 2147483647 \<longrightarrow>
        vec_x (SpriteFrame.mDrawOffset (frames ! 8)) =
          vec_x (SpriteFrame.mDrawOffset (frames ! 4)) + 1) \<and>
     (- 2147483648 \<le> vec_x (SpriteFrame.mDrawOffset (frames ! 5)) \<and>
      vec_x (SpriteFrame.mDrawOffset (frames ! 5)) < 2147483647 \<longrightarrow>
        vec_x (SpriteFrame.mDrawOffset (frames ! 9)) =
          vec_x (SpriteFrame.mDrawOffset (frames ! 5)) + 1) \<and>
     vec_y (SpriteFrame.mDrawOffset (frames ! 8)) =
       vec_y (SpriteFrame.mDrawOffset (frames ! 4)) \<and>
     vec_y (SpriteFrame.mDrawOffset (frames ! 9)) =
       vec_y (SpriteFrame.mDrawOffset (frames ! 5))"
proof -
  define actorParts where "actorParts = [left, right, flames]"
  define source where
    "source = ActorData.mFrames left @ ActorData.mFrames right @ ActorData.mFrames flames"
  define a where "a = assembleParts actorParts
    \<lparr>drawFrames = [], lastDrawOrder = 0, lastFrameCount = 0,
     framesToRender = [], renderer = mpRenderer factory\<rparr>"
  define assembled where "assembled = drawFrames a"
  define copy0 where "copy0 = addToDrawOffsetX 1
    (fst (createFrameDrawData (ActorData.mFrames flames ! 0) (renderer a)))"
  define copy1 where "copy1 = addToDrawOffsetX 1
    (fst (createFrameDrawData (ActorData.mFrames flames ! 1) (Suc (renderer a))))"
  define frames where "frames = take 8 assembled @ [copy0, copy1] @ drop 8 assembled"
  have parts: "loadParts (mpSpritePackage factory) (actorIDListForActor actorId) =
      Inr actorParts"
    using ship left right flames
    by (elim disjE; simp add: actorIDListForActor_def actorParts_def)
  have concat: "concat (map ActorData.mFrames actorParts) = source"
    by (simp add: actorParts_def source_def)
  have images: "map (\<lambda>frame. tex_image (mImage frame)) assembled = map mFrameImage source"
    unfolding assembled_def a_def by (simp only: assembleParts_images concat) simp
  have offsets: "map SpriteFrame.mDrawOffset assembled = map Frame.mDrawOffset source"
    unfolding assembled_def a_def by (simp only: assembleParts_offsets concat) simp
  have source_length: "length source = 10"
    using counts by (simp add: source_def)
  have assembled_length: "length assembled = 10"
    using arg_cong [OF offsets, of length] source_length by simp
  have source_nth:
    "source ! 2 = ActorData.mFrames right ! 0" "source ! 3 = ActorData.mFrames right ! 1"
    "source ! 4 = ActorData.mFrames flames ! 0" "source ! 5 = ActorData.mFrames flames ! 1"
    using counts by (simp_all add: source_def nth_append)
  have image_at: "tex_image (mImage (assembled ! i)) = mFrameImage (source ! i)"
    if "i < 10" for i
    using map_eq_nth [OF images, of i] that assembled_length by simp
  have offset_at: "SpriteFrame.mDrawOffset (assembled ! i) = Frame.mDrawOffset (source ! i)"
    if "i < 10" for i
    using map_eq_nth [OF offsets, of i] that assembled_length by simp
  have frames_nth:
    "frames ! 2 = assembled ! 2" "frames ! 3 = assembled ! 3"
    "frames ! 4 = assembled ! 4" "frames ! 5 = assembled ! 5"
    "frames ! 8 = copy0" "frames ! 9 = copy1"
    using assembled_length by (simp_all add: frames_def nth_append)
  have frames_length: "length frames = 12"
    using assembled_length by (simp add: frames_def)
  have "insertShipFrames assembled actorParts (renderer a) = Inr (frames, renderer a + 2)"
    using insertShipFrames_in_range [of assembled actorParts "renderer a"]
      assembled_length counts
    by (simp add: actorParts_def frames_def copy0_def copy1_def)
  then have tweak: "applyTweaks (drawFrames a) actorId actorParts (renderer a) =
      Inr (frames, renderer a + 2)"
    by (simp add: applyTweaks_dukesShip [OF ship] assembled_def)
  have copies:
    "tex_image (mImage copy0) = mFrameImage (ActorData.mFrames flames ! 0)"
    "tex_image (mImage copy1) = mFrameImage (ActorData.mFrames flames ! 1)"
    "vec_x (SpriteFrame.mDrawOffset copy0) =
       wrapInt (vec_x (Frame.mDrawOffset (ActorData.mFrames flames ! 0)) + 1)"
    "vec_y (SpriteFrame.mDrawOffset copy0) =
       vec_y (Frame.mDrawOffset (ActorData.mFrames flames ! 0))"
    "vec_x (SpriteFrame.mDrawOffset copy1) =
       wrapInt (vec_x (Frame.mDrawOffset (ActorData.mFrames flames ! 1)) + 1)"
    "vec_y (SpriteFrame.mDrawOffset copy1) =
       vec_y (Frame.mDrawOffset (ActorData.mFrames flames ! 1))"
    by (simp_all add: copy0_def copy1_def addToDrawOffsetX_def createFrameDrawData_def)
  from createOrFindData_uncached [OF uncached parts a_def tweak refl, of K]
  obtain data factory' where
    call: "createOrFindData K factory actorId = Inr (data, factory')" and
    data: "SpriteDrawData.mFrames (mDrawData data) = frames"
    by simp
  show ?thesis
    using call data frames_length
    by (simp add: frames_nth copies image_at offset_at source_nth wrapInt_id)
qed

theorem dukesShip_duplicated_frames_witness:
  "\<exists>data factory' frames.
     createOrFindData exampleConstants exampleFactory Dukes_ship_LEFT = Inr (data, factory') \<and>
     frames = SpriteDrawData.mFrames (mDrawData data) \<and>
     length frames = 12 \<and>
     tex_image (mImage (frames ! 8)) = tex_image (mImage (frames ! 4)) \<and>
     tex_image (mImage (frames ! 9)) = tex_image (mImage (frames ! 5)) \<and>
     vec_x (SpriteFrame.mDrawOffset (frames ! 8)) =
       vec_x (SpriteFrame.mDrawOffset (frames ! 4)) + 1 \<and>
     vec_x (SpriteFrame.mDrawOffset (frames ! 9)) =
       vec_x (SpriteFrame.mDrawOffset (frames ! 5)) + 1"
proof -
  have ship: "Dukes_ship_LEFT = Dukes_ship_LEFT \<or> Dukes_ship_LEFT = Dukes_ship_RIGHT \<or>
      Dukes_ship_LEFT = Dukes_ship_after_exiting_LEFT \<or>
      Dukes_ship_LEFT = Dukes_ship_after_exiting_RIGHT"
    by simp
  have "mSpriteDataCache exampleFactory Dukes_ship_LEFT = None"
    "mpSpritePackage exampleFactory Dukes_ship_LEFT = Some (exampleActor 5 [0, 1])"
    "mpSpritePackage exampleFactory Dukes_ship_RIGHT = Some (exampleActor 5 [2, 3])"
    "mpSpritePackage exampleFactory Dukes_ship_exhaust_flames =
       Some (exampleActor 5 [4, 5, 6, 7, 8, 9])"
    "length (ActorData.mFrames (exampleActor 5 [0, 1])) = 2"
    "length (ActorData.mFrames (exampleActor 5 [2, 3])) = 2"
    "length (ActorData.mFrames (exampleActor 5 [4, 5, 6, 7, 8, 9])) = 6"
    by (simp_all add: exampleFactory_def newSpriteFactory_def examplePackage_def
        exampleActor_def)
  from dukesShip_duplicated_frames [OF ship this, of exampleConstants]
  obtain data factory' frames where
    call: "createOrFindData exampleConstants exampleFactory Dukes_ship_LEFT =
      Inr (data, factory')"
    and frames: "frames = SpriteDrawData.mFrames (mDrawData data)" "length frames = 12"
    and images: "tex_image (mImage (frames ! 8)) = tex_image (mImage (frames ! 4))"
      "tex_image (mImage (frames ! 9)) = tex_image (mImage (frames ! 5))"
    and sources:
      "SpriteFrame.mDrawOffset (frames ! 4) =
         Frame.mDrawOffset (ActorData.mFrames (exampleActor 5 [4, 5, 6, 7, 8, 9]) ! 0)"
      "SpriteFrame.mDrawOffset (frames ! 5) =
         Frame.mDrawOffset (ActorData.mFrames (exampleActor 5 [4, 5, 6, 7, 8, 9]) ! 1)"
    and exact:
      "- 2147483648 \<le> vec_x (SpriteFrame.mDrawOffset (frames ! 4)) \<and>
       vec_x (SpriteFrame.mDrawOffset (frames ! 4)) < 2147483647 \<longrightarrow>
         vec_x (SpriteFrame.mDrawOffset (frames ! 8)) =
           vec_x (SpriteFrame.mDrawOffset (frames ! 4)) + 1"
      "- 2147483648 \<le> vec_x (SpriteFrame.mDrawOffset (frames ! 5)) \<and>
       vec_x (SpriteFrame.mDrawOffset (frames ! 5)) < 2147483647 \<longrightarrow>
         vec_x (SpriteFrame.mDrawOffset (frames ! 9)) =
           vec_x (SpriteFrame.mDrawOffset (frames ! 5)) + 1"
    by blast
  have "vec_x (SpriteFrame.mDrawOffset (frames ! 4)) = 4"
    "vec_x (SpriteFrame.mDrawOffset (frames ! 5)) = 5"
    by (simp_all add: sources exampleActor_def exampleFrame_def)
  with exact have
    "vec_x (SpriteFrame.mDrawOffset (frames ! 8)) =
       vec_x (SpriteFrame.mDrawOffset (frames ! 4)) + 1"
    "vec_x (SpriteFrame.mDrawOffset (frames ! 9)) =
       vec_x (SpriteFrame.mDrawOffset (frames ! 5)) + 1"
    by simp_all
  with call frames images show ?thesis by blast
qed

text \<open>On the example package every frame has its own image and frame \<open>n\<close> has the X
  offset \<open>n\<close>. Positions 8 and 9 of the assembled ship hold the images of positions 4
  and 5, with the X offsets 5 and 6; positions 2 and 3 hold other images, with the X
  offsets 2 and 3.\<close>

theorem dukesShip_frames_8_9_differ_from_2_3:
  "assembledData exampleConstants exampleFactory Dukes_ship_LEFT \<noteq> None \<and>
   (let frames = SpriteDrawData.mFrames
        (mDrawData (the (assembledData exampleConstants exampleFactory Dukes_ship_LEFT)))
    in length frames = 12 \<and>
       tex_image (mImage (frames ! 8)) \<noteq> tex_image (mImage (frames ! 2)) \<and>
       tex_image (mImage (frames ! 9)) \<noteq> tex_image (mImage (frames ! 3)) \<and>
       vec_x (SpriteFrame.mDrawOffset (frames ! 8)) \<noteq>
         vec_x (SpriteFrame.mDrawOffset (frames ! 2)) + 1 \<and>
       vec_x (SpriteFrame.mDrawOffset (frames ! 9)) \<noteq>
         vec_x (SpriteFrame.mDrawOffset (frames ! 3)) + 1 \<and>
       map (\<lambda>frame. img_pixels (tex_image (mImage frame))) frames =
         [ [0], [1], [2], [3], [4], [5], [6], [7], [4], [5], [8], [9] ] \<and>
       map (\<lambda>frame. vec_x (SpriteFrame.mDrawOffset frame)) frames =
         [0, 1, 2, 3, 4, 5, 6, 7, 5, 6, 8, 9])"
  by (simp add: example_defs run_defs access_defs)

subsection \<open>Failures\<close>










subsection \<open>The frame argument of \<open>actorFrameRect\<close>\<close>

lemma actorFrameRect_frame_irrelevant:
  "actorFrameRect K factory actorId frame = actorFrameRect K factory actorId 0"
  by (simp add: actorFrameRect_def)

text \<open>
  Claim C1 does not hold of the code: \<open>actorFrameRect\<close> passes the constant 0 to
  \<open>virtualToRealFrame\<close> instead of its argument \<open>frame\<close>. The rocket elevator of the
  example package has two frames, with the draw offsets (30, 60) and (31, 62) and the
  widths 248 and 256; virtual frame 1 is real frame 1; yet the call for frame 1
  returns the rectangle of frame 0, as the call for frame 0 does.
\<close>

theorem actorFrameRect_ignores_frame:
  "map_sum id fst (actorFrameRect exampleConstants exampleFactory Rocket_elevator 1) =
     Inr \<lparr>rect_topLeft = \<lparr>vec_x = 30, vec_y = 60\<rparr>,
          rect_size = \<lparr>ext_width = 31, ext_height = 2\<rparr>\<rparr> \<and>
   map_sum id fst (actorFrameRect exampleConstants exampleFactory Rocket_elevator 0) =
     map_sum id fst (actorFrameRect exampleConstants exampleFactory Rocket_elevator 1) \<and>
   map_option (\<lambda>data. map SpriteFrame.mDrawOffset (SpriteDrawData.mFrames (mDrawData data)))
     (assembledData exampleConstants exampleFactory Rocket_elevator) =
     Some [\<lparr>vec_x = 30, vec_y = 60\<rparr>, \<lparr>vec_x = 31, vec_y = 62\<rparr>] \<and>
   map_option (\<lambda>data. virtualToRealFrame 1 (mDrawData data) None)
     (assembledData exampleConstants exampleFactory Rocket_elevator) = Some (Inr 1)"
  by (simp add: example_defs run_defs access_defs)

subsection \<open>The recorded boundaries of three and more parts\<close>

text \<open>
  Claim C2 does not hold of the code: the loop of \<open>createOrFindData\<close> assigns the frame
  count of the current part to \<open>lastFrameCount\<close> instead of adding it, so from the
  third part on the recorded boundary is the frame count of the part before, not the
  number of frames before the part. For Duke's ship (2, 2 and 6 frames) the list is
  0, 2, 2 where the parts start at 0, 2, 4; for a messenger drone of eight parts with
  two frames each, the sprite renders the frames 0, 2, 2, 2, 2, 2, 2, 2 where the parts
  start at 0, 2, 4, 6, 8, 10, 12, 14.
\<close>

theorem recorded_boundaries_not_cumulative:
  "loadParts examplePackage (actorIDListForActor Dukes_ship_LEFT) =
     Inr [exampleActor 5 [0, 1], exampleActor 5 [2, 3], exampleActor 5 [4, 5, 6, 7, 8, 9]] \<and>
   map_option mInitialFramesToRender
     (assembledData exampleConstants exampleFactory Dukes_ship_LEFT) = Some [0, 2, 2] \<and>
   partStartIndices 0
     [exampleActor 5 [0, 1], exampleActor 5 [2, 3], exampleActor 5 [4, 5, 6, 7, 8, 9]] =
     [0, 2, 4] \<and>
   map_sum id (\<lambda>(sprite, factory). mFramesToRender sprite)
     (createSprite exampleConstants exampleFactory Messenger_drone_1) =
     Inr [0, 2, 2, 2, 2, 2, 2, 2] \<and>
   map_sum id (partStartIndices 0)
     (loadParts examplePackage (actorIDListForActor Messenger_drone_1)) =
     Inr [0, 2, 4, 6, 8, 10, 12, 14]"
  by (simp add: example_defs run_defs access_defs)

end
